theory Spec2Isabelle
  imports Main "HOL-Library.Word" "HOL-Library.Signed_Division"
begin

unbundle bit_operations_syntax

section \<open>Machine integers of the driver\<close>

text \<open>
  The driver is C. A \<^verbatim>\<open>uint8_t\<close> is an 8-bit word, a \<^verbatim>\<open>uint32_t\<close> a 32-bit word and
  an \<^verbatim>\<open>int\<close> a 32-bit word read in two's complement (\<open>sint\<close>). The operators
  \<^verbatim>\<open>/\<close> and \<^verbatim>\<open>%\<close> of C on \<^verbatim>\<open>int\<close> truncate towards zero: they are \<open>sdiv\<close> and
  \<open>smod\<close> on the signed readings. A left shift or a sum that leaves the range of
  \<^verbatim>\<open>int\<close> wraps around here, which is what the two's complement targets of the driver
  compute.
\<close>

type_synonym u8 = "8 word"
type_synonym u32 = "32 word"
type_synonym int32 = "32 word"

definition c_div :: "int32 \<Rightarrow> int32 \<Rightarrow> int32" where
  "c_div a b = word_of_int (sint a sdiv sint b)"

definition c_mod :: "int32 \<Rightarrow> int32 \<Rightarrow> int32" where
  "c_mod a b = word_of_int (sint a smod sint b)"

text \<open>The conversion of an \<^verbatim>\<open>int\<close> to \<^verbatim>\<open>uint32_t\<close>: the value modulo \<open>2 ^ 32\<close>.\<close>

definition int_to_u32 :: "int32 \<Rightarrow> u32" where
  "int_to_u32 r = word_of_int (sint r)"

text \<open>
  The macro \<^verbatim>\<open>BIT(n)\<close> of the host system's \<^verbatim>\<open>util.h\<close>, \<^verbatim>\<open>1UL << n\<close>, at the width
  of the variable or operand it meets.
\<close>

definition BIT :: "nat \<Rightarrow> 'a::len word" where
  "BIT n = push_bit n 1"

text \<open>
  The error number \<^verbatim>\<open>EIO\<close> comes from the host system's \<^verbatim>\<open>errno.h\<close>, which is not
  part of the driver; its value there is 5. The theorems below use only that \<^verbatim>\<open>-EIO\<close>
  is not 0.
\<close>

definition EIO :: int32 where
  "EIO = 5"

section \<open>Register map and bit fields (pcf85063a.h)\<close>

definition PCF85063A_BCD_UPPER_SHIFT :: nat where "PCF85063A_BCD_UPPER_SHIFT = 4"
definition PCF85063A_BCD_LOWER_MASK :: int32 where "PCF85063A_BCD_LOWER_MASK = 0x0f"
definition PCF85063A_BCD_UPPER_MASK :: int32 where "PCF85063A_BCD_UPPER_MASK = 0xf0"
definition PCF85063A_BCD_UPPER_MASK_SEC :: int32 where "PCF85063A_BCD_UPPER_MASK_SEC = 0x70"

definition PCF85063A_CTRL1 :: u8 where "PCF85063A_CTRL1 = 0x00"
definition PCF85063A_CTRL1_STOP :: u8 where "PCF85063A_CTRL1_STOP = BIT 5"

definition PCF85063A_CTRL2 :: u8 where "PCF85063A_CTRL2 = 0x01"
definition PCF85063A_CTRL2_TF :: u8 where "PCF85063A_CTRL2_TF = BIT 3"

definition PCF85063A_SECONDS :: u8 where "PCF85063A_SECONDS = 0x04"
definition PCF85063A_SECONDS_OS :: u8 where "PCF85063A_SECONDS_OS = BIT 7"
definition PCF85063A_SECONDS_MASK :: int32 where "PCF85063A_SECONDS_MASK = 0x7f"
definition PCF85063A_MINUTES_MASK :: int32 where "PCF85063A_MINUTES_MASK = 0x7f"
definition PCF85063A_HOURS_MASK :: int32 where "PCF85063A_HOURS_MASK = 0x3f"
definition PCF85063A_DAYS_MASK :: int32 where "PCF85063A_DAYS_MASK = 0x3f"
definition PCF85063A_WEEKDAYS_MASK :: int32 where "PCF85063A_WEEKDAYS_MASK = 0x7"
definition PCF85063A_MONTHS_MASK :: int32 where "PCF85063A_MONTHS_MASK = 0x1f"

definition PCF85063A_TIMER_VALUE :: u8 where "PCF85063A_TIMER_VALUE = 0x10"
definition PCF85063A_TIMER_MODE :: u8 where "PCF85063A_TIMER_MODE = 0x11"
definition PCF85063A_TIMER_MODE_FREQ_MASK :: u8 where
  "PCF85063A_TIMER_MODE_FREQ_MASK = BIT 4 OR BIT 3"
definition PCF85063A_TIMER_MODE_FREQ_SHIFT :: nat where "PCF85063A_TIMER_MODE_FREQ_SHIFT = 3"
definition PCF85063A_TIMER_MODE_FREQ_1 :: u8 where "PCF85063A_TIMER_MODE_FREQ_1 = 0x2"
definition PCF85063A_TIMER_MODE_EN :: u8 where "PCF85063A_TIMER_MODE_EN = BIT 2"
definition PCF85063A_TIMER_MODE_INT_EN :: u8 where "PCF85063A_TIMER_MODE_INT_EN = BIT 1"
definition PCF85063A_TIMER_MODE_INT_TI_TP :: u8 where "PCF85063A_TIMER_MODE_INT_TI_TP = BIT 0"

section \<open>The two-wire bus\<close>

text \<open>
  Modelled from the spec: the bus transport (the \<^verbatim>\<open>i2c_*_dt\<close> functions of the host
  system) is an external collaborator of the driver and not part of its source. Section 6
  of the specification gives its interface: addressed single-register read and write, an
  addressed masked read-modify-write that stores \<^verbatim>\<open>(old & ~mask) | (new_value & mask)\<close>,
  and burst read and write of N bytes from a base address; every operation returns
  success (0) or a transport error (a nonzero \<^verbatim>\<open>int\<close>).

  The peripheral is a register file. The bus keeps the list of the transactions the
  driver has issued, oldest first, and a fixed schedule \<open>fault\<close> that gives the return
  code of the \<open>n\<close>-th transaction; a transaction that fails changes no register and
  delivers no data.
\<close>

datatype bus_op =
    Reg_read u8
  | Reg_write u8 u8
  | Reg_update u8 u8 u8
  | Burst_read u8 nat
  | Burst_write u8 "u8 list"

record i2c_bus =
  regs :: "u8 \<Rightarrow> u8"
  log :: "bus_op list"
  fault :: "nat \<Rightarrow> int32"

definition next_ret :: "i2c_bus \<Rightarrow> int32" where
  "next_ret b = fault b (length (log b))"

definition issue :: "bus_op \<Rightarrow> i2c_bus \<Rightarrow> i2c_bus" where
  "issue op b = b\<lparr>log := log b @ [op]\<rparr>"

fun store_bytes :: "u8 \<Rightarrow> u8 list \<Rightarrow> (u8 \<Rightarrow> u8) \<Rightarrow> (u8 \<Rightarrow> u8)" where
  "store_bytes a [] r = r"
| "store_bytes a (v # vs) r = store_bytes (a + 1) vs (r(a := v))"

fun load_bytes :: "u8 \<Rightarrow> nat \<Rightarrow> (u8 \<Rightarrow> u8) \<Rightarrow> u8 list" where
  "load_bytes a 0 r = []"
| "load_bytes a (Suc n) r = r a # load_bytes (a + 1) n r"

text \<open>
  \<^verbatim>\<open>i2c_reg_read_byte_dt(spec, reg_addr, &value)\<close>: the second argument is the content
  of the caller's variable, the second result its content afterwards.
\<close>

definition i2c_reg_read_byte_dt :: "u8 \<Rightarrow> u8 \<Rightarrow> i2c_bus \<Rightarrow> int32 \<times> u8 \<times> i2c_bus" where
  "i2c_reg_read_byte_dt reg_addr val b =
     (let ret = next_ret b; b' = issue (Reg_read reg_addr) b
      in if ret \<noteq> 0 then (ret, val, b') else (0, regs b reg_addr, b'))"

text \<open>\<^verbatim>\<open>i2c_reg_write_byte_dt(spec, reg_addr, value)\<close>\<close>

definition i2c_reg_write_byte_dt :: "u8 \<Rightarrow> u8 \<Rightarrow> i2c_bus \<Rightarrow> int32 \<times> i2c_bus" where
  "i2c_reg_write_byte_dt reg_addr val b =
     (let ret = next_ret b; b' = issue (Reg_write reg_addr val) b
      in if ret \<noteq> 0 then (ret, b') else (0, b'\<lparr>regs := (regs b)(reg_addr := val)\<rparr>))"

text \<open>\<^verbatim>\<open>i2c_reg_update_byte_dt(spec, reg_addr, mask, value)\<close>\<close>

definition i2c_reg_update_byte_dt :: "u8 \<Rightarrow> u8 \<Rightarrow> u8 \<Rightarrow> i2c_bus \<Rightarrow> int32 \<times> i2c_bus" where
  "i2c_reg_update_byte_dt reg_addr msk val b =
     (let ret = next_ret b; b' = issue (Reg_update reg_addr msk val) b
      in if ret \<noteq> 0 then (ret, b')
         else (0, b'\<lparr>regs := (regs b)(reg_addr :=
                  (regs b reg_addr AND NOT msk) OR (val AND msk))\<rparr>))"

text \<open>\<^verbatim>\<open>i2c_burst_read_dt(spec, start_addr, buf, num_bytes)\<close> with \<open>num_bytes = length buf\<close>\<close>

definition i2c_burst_read_dt :: "u8 \<Rightarrow> u8 list \<Rightarrow> i2c_bus \<Rightarrow> int32 \<times> u8 list \<times> i2c_bus" where
  "i2c_burst_read_dt start_addr buf b =
     (let ret = next_ret b; b' = issue (Burst_read start_addr (length buf)) b
      in if ret \<noteq> 0 then (ret, buf, b')
         else (0, load_bytes start_addr (length buf) (regs b), b'))"

text \<open>\<^verbatim>\<open>i2c_burst_write_dt(spec, start_addr, buf, num_bytes)\<close> with \<open>num_bytes = length buf\<close>\<close>

definition i2c_burst_write_dt :: "u8 \<Rightarrow> u8 list \<Rightarrow> i2c_bus \<Rightarrow> int32 \<times> i2c_bus" where
  "i2c_burst_write_dt start_addr buf b =
     (let ret = next_ret b; b' = issue (Burst_write start_addr buf) b
      in if ret \<noteq> 0 then (ret, b')
         else (0, b'\<lparr>regs := store_bytes start_addr buf (regs b)\<rparr>))"

section \<open>Calendar time\<close>

text \<open>\<^verbatim>\<open>struct tm\<close>: nine \<^verbatim>\<open>int\<close> fields.\<close>

record tm =
  tm_sec :: int32
  tm_min :: int32
  tm_hour :: int32
  tm_mday :: int32
  tm_mon :: int32
  tm_year :: int32
  tm_wday :: int32
  tm_yday :: int32
  tm_isdst :: int32

text \<open>\<^verbatim>\<open>yisleap\<close>: the value of a C condition is the \<^verbatim>\<open>int\<close> 1 or 0.\<close>

definition yisleap :: "int32 \<Rightarrow> int32" where
  "yisleap year =
     (if (c_mod year 4 = 0 \<and> c_mod year 100 \<noteq> 0) \<or> c_mod year 400 = 0 then 1 else 0)"

definition days :: "int32 list list" where
  "days = [ [0, 31, 59, 90, 120, 151, 181, 212, 243, 273, 304, 334],
            [0, 31, 60, 91, 121, 152, 182, 213, 244, 274, 305, 335] ]"

text \<open>
  \<^verbatim>\<open>get_yday\<close>: the table has twelve columns. An index \<open>mon\<close> outside \<open>0..11\<close> reads
  outside the table, which C leaves undefined: the result is \<open>None\<close> there.
\<close>

definition get_yday :: "int32 \<Rightarrow> int32 \<Rightarrow> int32 \<Rightarrow> int32 option" where
  "get_yday mon day year =
     (let leap = yisleap year
      in if 0 \<le> sint mon \<and> sint mon < 12
         then Some (days ! nat (sint leap) ! nat (sint mon) + day - 1)
         else None)"

section \<open>The driver (pcf85063a.c)\<close>

text \<open>
  How a driver function that writes through a pointer ends: it returns a value, or it
  has read outside the table of \<^verbatim>\<open>get_yday\<close>.
\<close>

datatype status = Returned int32 | Out_of_bounds_read

text \<open>
  The packing expression of \<^verbatim>\<open>pcf85063a_set_time\<close>,
  \<^verbatim>\<open>MASK & (((v / 10) << PCF85063A_BCD_UPPER_SHIFT) + (v % 10))\<close>, computed in \<^verbatim>\<open>int\<close>
  and stored into a \<^verbatim>\<open>uint8_t\<close>.
\<close>

definition bcd_pack :: "int32 \<Rightarrow> int32 \<Rightarrow> u8" where
  "bcd_pack msk v =
     ucast (msk AND (push_bit PCF85063A_BCD_UPPER_SHIFT (c_div v 10) + c_mod v 10))"

text \<open>
  The unpacking expression of \<^verbatim>\<open>pcf85063a_get_time\<close>,
  \<^verbatim>\<open>(raw & PCF85063A_BCD_LOWER_MASK) + (((raw & UPPER) >> PCF85063A_BCD_UPPER_SHIFT) * 10)\<close>,
  on the \<^verbatim>\<open>uint8_t\<close> promoted to \<^verbatim>\<open>int\<close>.
\<close>

definition bcd_unpack :: "int32 \<Rightarrow> u8 \<Rightarrow> int32" where
  "bcd_unpack upper raw =
     ((ucast raw) AND PCF85063A_BCD_LOWER_MASK)
       + drop_bit PCF85063A_BCD_UPPER_SHIFT ((ucast raw) AND upper) * 10"

text \<open>
  The array \<^verbatim>\<open>raw_time[7]\<close> that \<^verbatim>\<open>pcf85063a_set_time\<close> fills before the burst
  write, one assignment of the source per element; \<open>year\<close> is the local
  \<^verbatim>\<open>uint8_t year = time->tm_year % 100\<close>.
\<close>

definition set_time_raw :: "tm \<Rightarrow> u8 list" where
  "set_time_raw time =
     (let year = (ucast (c_mod (tm_year time) 100) :: u8)
      in [ bcd_pack PCF85063A_SECONDS_MASK (tm_sec time),
           bcd_pack PCF85063A_MINUTES_MASK (tm_min time),
           bcd_pack PCF85063A_HOURS_MASK (tm_hour time),
           bcd_pack PCF85063A_DAYS_MASK (tm_mday time),
           ucast (PCF85063A_WEEKDAYS_MASK AND tm_wday time),
           bcd_pack PCF85063A_MONTHS_MASK (tm_mon time),
           ucast (push_bit PCF85063A_BCD_UPPER_SHIFT (c_div (ucast year) 10)
                   + c_mod (ucast year) 10) ])"

definition pcf85063a_set_time :: "i2c_bus \<Rightarrow> tm \<Rightarrow> int32 \<times> i2c_bus" where
  "pcf85063a_set_time b time =
     (let raw_time = set_time_raw time;
          (ret, b1) = i2c_burst_write_dt PCF85063A_SECONDS raw_time b
      in if ret \<noteq> 0 then (ret, b1) else (0, b1))"

text \<open>
  The seven assignments of \<^verbatim>\<open>pcf85063a_get_time\<close> from \<^verbatim>\<open>raw_time\<close> to the caller's
  structure, in the order of the source. Only the seconds use
  \<^verbatim>\<open>PCF85063A_BCD_UPPER_MASK_SEC\<close>.
\<close>

definition decode_fields :: "u8 list \<Rightarrow> tm \<Rightarrow> tm" where
  "decode_fields raw_time time =
     time\<lparr> tm_sec := bcd_unpack PCF85063A_BCD_UPPER_MASK_SEC (raw_time ! 0),
            tm_min := bcd_unpack PCF85063A_BCD_UPPER_MASK (raw_time ! 1),
            tm_hour := bcd_unpack PCF85063A_BCD_UPPER_MASK (raw_time ! 2),
            tm_mday := bcd_unpack PCF85063A_BCD_UPPER_MASK (raw_time ! 3),
            tm_wday := bcd_unpack PCF85063A_BCD_UPPER_MASK (raw_time ! 4),
            tm_mon := bcd_unpack PCF85063A_BCD_UPPER_MASK (raw_time ! 5),
            tm_year := bcd_unpack PCF85063A_BCD_UPPER_MASK (raw_time ! 6) + 100 \<rparr>"

definition pcf85063a_get_time :: "i2c_bus \<Rightarrow> tm \<Rightarrow> status \<times> tm \<times> i2c_bus" where
  "pcf85063a_get_time b time =
     (let raw_time = replicate 7 0;
          (ret, raw_time, b1) = i2c_burst_read_dt PCF85063A_SECONDS raw_time b
      in if ret \<noteq> 0 then (Returned ret, time, b1)
         else if (raw_time ! 0) AND PCF85063A_SECONDS_OS \<noteq> 0
         then (Returned (- EIO), time, b1)
         else
           let time = decode_fields raw_time time
           in case get_yday (tm_mon time) (tm_mday time) (tm_year time + 1900) of
                None \<Rightarrow> (Out_of_bounds_read, time, b1)
              | Some yday \<Rightarrow> (Returned 0, time\<lparr>tm_yday := yday, tm_isdst := 0\<rparr>, b1))"

definition pcf85063a_start :: "i2c_bus \<Rightarrow> int32 \<times> i2c_bus" where
  "pcf85063a_start b =
     (let reg = 0; msk = PCF85063A_CTRL1_STOP;
          (ret, b1) = i2c_reg_update_byte_dt PCF85063A_CTRL1 msk reg b
      in if ret \<noteq> 0 then (ret, b1) else (0, b1))"

definition pcf85063a_stop :: "i2c_bus \<Rightarrow> int32 \<times> i2c_bus" where
  "pcf85063a_stop b =
     (let reg = PCF85063A_CTRL1_STOP; msk = PCF85063A_CTRL1_STOP;
          (ret, b1) = i2c_reg_update_byte_dt PCF85063A_CTRL1 msk reg b
      in if ret \<noteq> 0 then (ret, b1) else (0, b1))"

text \<open>
  \<^verbatim>\<open>pcf85063a_set_alarm\<close>: \<open>alarm_ticks\<close> is the \<^verbatim>\<open>uint32_t\<close> field \<^verbatim>\<open>alarm_cfg->ticks\<close>,
  which the first statement casts to \<^verbatim>\<open>uint8_t\<close>.
\<close>

definition pcf85063a_set_alarm :: "i2c_bus \<Rightarrow> u32 \<Rightarrow> int32 \<times> i2c_bus" where
  "pcf85063a_set_alarm b alarm_ticks =
     (let ticks = (ucast alarm_ticks :: u8);
          reg = 0; msk = PCF85063A_CTRL2_TF;
          (ret, b1) = i2c_reg_update_byte_dt PCF85063A_CTRL2 msk reg b
      in if ret \<noteq> 0 then (ret, b1)
         else
           let (ret, b2) = i2c_reg_write_byte_dt PCF85063A_TIMER_VALUE ticks b1
           in if ret \<noteq> 0 then (ret, b2)
              else
                let reg = push_bit PCF85063A_TIMER_MODE_FREQ_SHIFT PCF85063A_TIMER_MODE_FREQ_1
                            OR PCF85063A_TIMER_MODE_EN OR PCF85063A_TIMER_MODE_INT_EN;
                    msk = PCF85063A_TIMER_MODE_FREQ_MASK OR PCF85063A_TIMER_MODE_EN
                            OR PCF85063A_TIMER_MODE_INT_EN;
                    (ret, b3) = i2c_reg_update_byte_dt PCF85063A_TIMER_MODE msk reg b2
                in if ret \<noteq> 0 then (ret, b3) else (0, b3))"

definition pcf85063a_cancel_alarm :: "i2c_bus \<Rightarrow> int32 \<times> i2c_bus" where
  "pcf85063a_cancel_alarm b =
     (let reg = 0; msk = PCF85063A_CTRL2_TF;
          (ret, b1) = i2c_reg_update_byte_dt PCF85063A_CTRL2 msk reg b
      in if ret \<noteq> 0 then (ret, b1)
         else
           let reg = 0;
               msk = PCF85063A_TIMER_MODE_EN OR PCF85063A_TIMER_MODE_INT_EN
                       OR PCF85063A_TIMER_MODE_INT_TI_TP;
               (ret, b2) = i2c_reg_update_byte_dt PCF85063A_TIMER_MODE msk reg b1
           in if ret \<noteq> 0 then (ret, b2) else (0, b2))"

definition pcf85063a_get_pending_int :: "i2c_bus \<Rightarrow> u32 \<times> i2c_bus" where
  "pcf85063a_get_pending_int b =
     (let reg = 0;
          (ret, reg, b1) = i2c_reg_read_byte_dt PCF85063A_CTRL2 reg b
      in if ret \<noteq> 0 then (int_to_u32 ret, b1)
         else (if reg AND PCF85063A_CTRL2_TF \<noteq> 0 then 1 else 0, b1))"

section \<open>The vocabulary of the specification\<close>

text \<open>
  The seven-byte register image: the registers from seconds (\<open>0x04\<close>) to years
  (\<open>0x0a\<close>), in bus order.
\<close>

definition image :: "i2c_bus \<Rightarrow> u8 list" where
  "image b = [regs b 0x04, regs b 0x05, regs b 0x06, regs b 0x07, regs b 0x08, regs b 0x09,
              regs b 0x0a]"

text \<open>
  A valid calendar time, as the specification's data model bounds its stored fields:
  seconds and minutes 0-59, hours 0-23, day of month 1-31, weekday 0-6, month 0-11 and
  year 100-199 (counted from 1900).
\<close>

definition valid_calendar_time :: "tm \<Rightarrow> bool" where
  "valid_calendar_time t \<longleftrightarrow>
     0 \<le> sint (tm_sec t) \<and> sint (tm_sec t) \<le> 59 \<and>
     0 \<le> sint (tm_min t) \<and> sint (tm_min t) \<le> 59 \<and>
     0 \<le> sint (tm_hour t) \<and> sint (tm_hour t) \<le> 23 \<and>
     1 \<le> sint (tm_mday t) \<and> sint (tm_mday t) \<le> 31 \<and>
     0 \<le> sint (tm_wday t) \<and> sint (tm_wday t) \<le> 6 \<and>
     0 \<le> sint (tm_mon t) \<and> sint (tm_mon t) \<le> 11 \<and>
     100 \<le> sint (tm_year t) \<and> sint (tm_year t) \<le> 199"

text \<open>
  The decoding of section 4.1 of the specification in its own words: the byte is cut to
  the width of the field's mask; the lower nibble is added to ten times the upper
  nibble. The weekday is a raw count of three bits.
\<close>

definition spec_decode_bcd :: "nat \<Rightarrow> u8 \<Rightarrow> int" where
  "spec_decode_bcd width raw =
     (let v = take_bit width (unat raw) in int (v mod 16) + 10 * int (v div 16))"

definition spec_decode_weekday :: "u8 \<Rightarrow> int" where
  "spec_decode_weekday raw = int (take_bit 3 (unat raw))"

text \<open>
  The day of the year in the specification's words: a year is leap if it is divisible
  by 4 and not by 100, or divisible by 400; the day of the year is the number of days
  of the months before, plus the day of the month minus one.
\<close>

definition spec_is_leap :: "int \<Rightarrow> bool" where
  "spec_is_leap y \<longleftrightarrow> (4 dvd y \<and> \<not> 100 dvd y) \<or> 400 dvd y"

definition month_lengths :: "bool \<Rightarrow> nat list" where
  "month_lengths leap = [31, if leap then 29 else 28, 31, 30, 31, 30, 31, 31, 30, 31, 30, 31]"

definition spec_day_of_year :: "bool \<Rightarrow> nat \<Rightarrow> int \<Rightarrow> int" where
  "spec_day_of_year leap month day_of_month =
     int (sum_list (take month (month_lengths leap))) + (day_of_month - 1)"

text \<open>
  For concrete runs: a transport that never fails, a register file of zeros and a
  calendar time of zeros.
\<close>

definition no_fault :: "nat \<Rightarrow> int32" where
  "no_fault n = 0"

definition zero_regs :: "u8 \<Rightarrow> u8" where
  "zero_regs a = 0"

definition zero_tm :: tm where
  "zero_tm = \<lparr>tm_sec = 0, tm_min = 0, tm_hour = 0, tm_mday = 0, tm_mon = 0, tm_year = 0,
              tm_wday = 0, tm_yday = 0, tm_isdst = 0\<rparr>"

section \<open>Unfolding the header and the bus\<close>

named_theorems regdefs

lemmas pcf85063a_h [regdefs] =
  BIT_def EIO_def
  PCF85063A_BCD_UPPER_SHIFT_def PCF85063A_BCD_LOWER_MASK_def PCF85063A_BCD_UPPER_MASK_def
  PCF85063A_BCD_UPPER_MASK_SEC_def PCF85063A_CTRL1_def PCF85063A_CTRL1_STOP_def
  PCF85063A_CTRL2_def PCF85063A_CTRL2_TF_def PCF85063A_SECONDS_def PCF85063A_SECONDS_OS_def
  PCF85063A_SECONDS_MASK_def PCF85063A_MINUTES_MASK_def PCF85063A_HOURS_MASK_def
  PCF85063A_DAYS_MASK_def PCF85063A_WEEKDAYS_MASK_def PCF85063A_MONTHS_MASK_def
  PCF85063A_TIMER_VALUE_def PCF85063A_TIMER_MODE_def PCF85063A_TIMER_MODE_FREQ_MASK_def
  PCF85063A_TIMER_MODE_FREQ_SHIFT_def PCF85063A_TIMER_MODE_FREQ_1_def
  PCF85063A_TIMER_MODE_EN_def PCF85063A_TIMER_MODE_INT_EN_def
  PCF85063A_TIMER_MODE_INT_TI_TP_def

lemma update_ok:
  "next_ret b = 0 \<Longrightarrow> i2c_reg_update_byte_dt a m v b =
     (0, b\<lparr>log := log b @ [Reg_update a m v],
            regs := (regs b)(a := (regs b a AND NOT m) OR (v AND m))\<rparr>)"
  by (simp add: i2c_reg_update_byte_dt_def issue_def)

lemma update_fail:
  "next_ret b \<noteq> 0 \<Longrightarrow> i2c_reg_update_byte_dt a m v b =
     (next_ret b, b\<lparr>log := log b @ [Reg_update a m v]\<rparr>)"
  by (simp add: i2c_reg_update_byte_dt_def issue_def)

lemma write_ok:
  "next_ret b = 0 \<Longrightarrow> i2c_reg_write_byte_dt a v b =
     (0, b\<lparr>log := log b @ [Reg_write a v], regs := (regs b)(a := v)\<rparr>)"
  by (simp add: i2c_reg_write_byte_dt_def issue_def)

lemma write_fail:
  "next_ret b \<noteq> 0 \<Longrightarrow> i2c_reg_write_byte_dt a v b =
     (next_ret b, b\<lparr>log := log b @ [Reg_write a v]\<rparr>)"
  by (simp add: i2c_reg_write_byte_dt_def issue_def)

lemma read_ok:
  "next_ret b = 0 \<Longrightarrow> i2c_reg_read_byte_dt a v b =
     (0, regs b a, b\<lparr>log := log b @ [Reg_read a]\<rparr>)"
  by (simp add: i2c_reg_read_byte_dt_def issue_def)

lemma read_fail:
  "next_ret b \<noteq> 0 \<Longrightarrow> i2c_reg_read_byte_dt a v b =
     (next_ret b, v, b\<lparr>log := log b @ [Reg_read a]\<rparr>)"
  by (simp add: i2c_reg_read_byte_dt_def issue_def)

lemma next_ret_logged [simp]:
  "next_ret (b\<lparr>log := log b @ [op], regs := r\<rparr>) = fault b (Suc (length (log b)))"
  "next_ret (b\<lparr>log := log b @ [op]\<rparr>) = fault b (Suc (length (log b)))"
  by (simp_all add: next_ret_def)

lemma clear_bit_u8: "x AND NOT (BIT n) = unset_bit n (x::u8)"
  by (simp add: BIT_def unset_bit_eq_and_not)

lemma set_bit_u8: "(x AND NOT (BIT n)) OR BIT n = set_bit n (x::u8)"
  by (rule bit_eqI) (auto simp: BIT_def bit_simps)

lemma bit_absorb [simp]:
  "set_bit n (unset_bit n x) = set_bit n (x::u8)"
  "unset_bit n (set_bit n x) = unset_bit n (x::u8)"
  "unset_bit n (unset_bit n x) = unset_bit n (x::u8)"
  by (rule bit_eqI; auto simp: bit_simps)+

section \<open>Run and stop\<close>

lemma start_ok:
  "next_ret b = 0 \<Longrightarrow> pcf85063a_start b =
     (0, b\<lparr>log := log b @ [Reg_update PCF85063A_CTRL1 PCF85063A_CTRL1_STOP 0],
            regs := (regs b)(PCF85063A_CTRL1 := unset_bit 5 (regs b PCF85063A_CTRL1))\<rparr>)"
  by (simp add: pcf85063a_start_def Let_def update_ok PCF85063A_CTRL1_STOP_def clear_bit_u8)

lemma stop_ok:
  "next_ret b = 0 \<Longrightarrow> pcf85063a_stop b =
     (0, b\<lparr>log := log b @ [Reg_update PCF85063A_CTRL1 PCF85063A_CTRL1_STOP PCF85063A_CTRL1_STOP],
            regs := (regs b)(PCF85063A_CTRL1 := set_bit 5 (regs b PCF85063A_CTRL1))\<rparr>)"
  by (simp add: pcf85063a_stop_def Let_def update_ok PCF85063A_CTRL1_STOP_def set_bit_u8)

text \<open>
  Claim C7. When the transport does not fail, \<^verbatim>\<open>start\<close> and \<^verbatim>\<open>stop\<close> each issue one
  masked update of control-1 whose mask is the run/stop bit (bit 5) alone; \<^verbatim>\<open>start\<close>
  clears that bit and \<^verbatim>\<open>stop\<close> sets it, and no other bit and no other register
  changes. The sequence start, stop, start issues exactly three such updates, with the
  bit cleared, set, cleared, and a second \<^verbatim>\<open>start\<close> leaves the registers as the first
  left them.
\<close>

theorem start_stop_touch_only_run_bit:
  assumes f0: "fault b (length (log b)) = 0"
      and f1: "fault b (length (log b) + 1) = 0"
      and f2: "fault b (length (log b) + 2) = 0"
  shows "PCF85063A_CTRL1_STOP = push_bit 5 1
    \<and> pcf85063a_start b =
        (0, b\<lparr>log := log b @ [Reg_update PCF85063A_CTRL1 PCF85063A_CTRL1_STOP 0],
               regs := (regs b)(PCF85063A_CTRL1 := unset_bit 5 (regs b PCF85063A_CTRL1))\<rparr>)
    \<and> pcf85063a_stop b =
        (0, b\<lparr>log := log b @ [Reg_update PCF85063A_CTRL1 PCF85063A_CTRL1_STOP PCF85063A_CTRL1_STOP],
               regs := (regs b)(PCF85063A_CTRL1 := set_bit 5 (regs b PCF85063A_CTRL1))\<rparr>)
    \<and> pcf85063a_stop (snd (pcf85063a_start b)) =
        (0, b\<lparr>log := log b @ [Reg_update PCF85063A_CTRL1 PCF85063A_CTRL1_STOP 0,
                                Reg_update PCF85063A_CTRL1 PCF85063A_CTRL1_STOP PCF85063A_CTRL1_STOP],
               regs := (regs b)(PCF85063A_CTRL1 := set_bit 5 (regs b PCF85063A_CTRL1))\<rparr>)
    \<and> pcf85063a_start (snd (pcf85063a_stop (snd (pcf85063a_start b)))) =
        (0, b\<lparr>log := log b @ [Reg_update PCF85063A_CTRL1 PCF85063A_CTRL1_STOP 0,
                                Reg_update PCF85063A_CTRL1 PCF85063A_CTRL1_STOP PCF85063A_CTRL1_STOP,
                                Reg_update PCF85063A_CTRL1 PCF85063A_CTRL1_STOP 0],
               regs := (regs b)(PCF85063A_CTRL1 := unset_bit 5 (regs b PCF85063A_CTRL1))\<rparr>)
    \<and> regs (snd (pcf85063a_start (snd (pcf85063a_start b)))) = regs (snd (pcf85063a_start b))"
proof -
  have n0: "next_ret b = 0" using f0 by (simp add: next_ret_def)
  let ?b1 = "snd (pcf85063a_start b)"
  have s1: "pcf85063a_start b =
        (0, b\<lparr>log := log b @ [Reg_update PCF85063A_CTRL1 PCF85063A_CTRL1_STOP 0],
               regs := (regs b)(PCF85063A_CTRL1 := unset_bit 5 (regs b PCF85063A_CTRL1))\<rparr>)"
    by (rule start_ok [OF n0])
  have n1: "next_ret ?b1 = 0" using f1 by (simp add: s1)
  have s2: "pcf85063a_stop ?b1 =
        (0, b\<lparr>log := log b @ [Reg_update PCF85063A_CTRL1 PCF85063A_CTRL1_STOP 0,
                                Reg_update PCF85063A_CTRL1 PCF85063A_CTRL1_STOP PCF85063A_CTRL1_STOP],
               regs := (regs b)(PCF85063A_CTRL1 := set_bit 5 (regs b PCF85063A_CTRL1))\<rparr>)"
    unfolding stop_ok [OF n1] by (simp add: s1)
  let ?b2 = "snd (pcf85063a_stop ?b1)"
  have n2: "next_ret ?b2 = 0" using f2 by (simp add: s2 next_ret_def)
  have s3: "pcf85063a_start ?b2 =
        (0, b\<lparr>log := log b @ [Reg_update PCF85063A_CTRL1 PCF85063A_CTRL1_STOP 0,
                                Reg_update PCF85063A_CTRL1 PCF85063A_CTRL1_STOP PCF85063A_CTRL1_STOP,
                                Reg_update PCF85063A_CTRL1 PCF85063A_CTRL1_STOP 0],
               regs := (regs b)(PCF85063A_CTRL1 := unset_bit 5 (regs b PCF85063A_CTRL1))\<rparr>)"
    unfolding start_ok [OF n2] by (simp add: s2)
  have s4: "regs (snd (pcf85063a_start ?b1)) = regs ?b1"
    unfolding start_ok [OF n1] by (simp add: s1)
  show ?thesis
    using s1 stop_ok [OF n0] s2 s3 s4 by (simp add: PCF85063A_CTRL1_STOP_def BIT_def)
qed

theorem start_stop_touch_only_run_bit_witness:
  "fault \<lparr>regs = (\<lambda>a. 0xff), log = [], fault = (\<lambda>n. 0)\<rparr> 0 = 0
   \<and> pcf85063a_start (snd (pcf85063a_stop (snd (pcf85063a_start
         \<lparr>regs = (\<lambda>a. 0xff), log = [], fault = (\<lambda>n. 0)\<rparr>)))) =
       (0, \<lparr>regs = (\<lambda>a. 0xff)(0 := 0xdf),
              log = [Reg_update 0 0x20 0, Reg_update 0 0x20 0x20, Reg_update 0 0x20 0],
              fault = (\<lambda>n. 0)\<rparr>)"
proof -
  let ?B = "\<lparr>regs = (\<lambda>a. 0xff), log = [], fault = (\<lambda>n. 0)\<rparr>"
  have h: "fault ?B (length (log ?B)) = 0" "fault ?B (length (log ?B) + 1) = 0"
    "fault ?B (length (log ?B) + 2) = 0"
    by simp_all
  show ?thesis
    using start_stop_touch_only_run_bit
      [OF h, THEN conjunct2, THEN conjunct2, THEN conjunct2, THEN conjunct2, THEN conjunct1]
    by (simp add: regdefs)
qed

section \<open>Polling the timer flag\<close>

lemma get_pending_int_ok:
  "fault b (length (log b)) = 0 \<Longrightarrow> pcf85063a_get_pending_int b =
     (if bit (regs b PCF85063A_CTRL2) 3 then 1 else 0,
      b\<lparr>log := log b @ [Reg_read PCF85063A_CTRL2]\<rparr>)"
  by (simp add: pcf85063a_get_pending_int_def Let_def read_ok next_ret_def
      PCF85063A_CTRL2_TF_def BIT_def bit_iff_and_push_bit_not_eq_0)

lemma get_pending_int_fail:
  "fault b (length (log b)) \<noteq> 0 \<Longrightarrow> pcf85063a_get_pending_int b =
     (int_to_u32 (fault b (length (log b))), b\<lparr>log := log b @ [Reg_read PCF85063A_CTRL2]\<rparr>)"
  by (simp add: pcf85063a_get_pending_int_def Let_def read_fail next_ret_def)

lemma int_to_u32_bits: "int_to_u32 r = r"
  by (simp add: int_to_u32_def)

lemma uint_int_to_u32: "uint (int_to_u32 r) = sint r mod 2 ^ 32"
  by (simp add: int_to_u32_def uint_sint [of r] take_bit_eq_mod)

text \<open>
  Claim C9. When the transport does not fail, \<^verbatim>\<open>get_pending_int\<close> issues exactly one
  bus transaction, a read of control-2, returns 1 when the timer flag (bit 3) is set and
  0 otherwise, and leaves every register, the flag included, as it was.
\<close>

theorem get_pending_int_reads_flag:
  assumes "fault b (length (log b)) = 0"
  shows "pcf85063a_get_pending_int b =
     (if bit (regs b PCF85063A_CTRL2) 3 then 1 else 0,
      b\<lparr>log := log b @ [Reg_read PCF85063A_CTRL2]\<rparr>)"
  using assms by (rule get_pending_int_ok)

theorem get_pending_int_reads_flag_witness:
  "fault \<lparr>regs = (\<lambda>a. 0x08), log = [], fault = (\<lambda>n. 0)\<rparr> 0 = 0
   \<and> pcf85063a_get_pending_int \<lparr>regs = (\<lambda>a. 0x08), log = [], fault = (\<lambda>n. 0)\<rparr> =
       (1, \<lparr>regs = (\<lambda>a. 0x08), log = [Reg_read 1], fault = (\<lambda>n. 0)\<rparr>)"
  using get_pending_int_reads_flag
    [of "\<lparr>regs = (\<lambda>a. 0x08), log = [], fault = (\<lambda>n. 0)\<rparr>"]
  by (simp add: regdefs)

text \<open>
  Claim C10. When the read of control-2 fails, \<^verbatim>\<open>get_pending_int\<close> returns the
  transport's error code converted to \<^verbatim>\<open>uint32_t\<close>, which is not zero. So a run
  exists where the function returns a nonzero value while the timer flag is clear, and a
  nonzero return means a pending interrupt only when the read succeeded.
\<close>

theorem get_pending_int_returns_error_code:
  "(fault b (length (log b)) \<noteq> 0 \<longrightarrow>
      pcf85063a_get_pending_int b =
        (int_to_u32 (fault b (length (log b))), b\<lparr>log := log b @ [Reg_read PCF85063A_CTRL2]\<rparr>)
      \<and> fst (pcf85063a_get_pending_int b) \<noteq> 0
      \<and> uint (fst (pcf85063a_get_pending_int b)) = sint (fault b (length (log b))) mod 2 ^ 32)
   \<and> (fault b (length (log b)) = 0 \<longrightarrow>
      (fst (pcf85063a_get_pending_int b) \<noteq> 0 \<longleftrightarrow> bit (regs b PCF85063A_CTRL2) 3))
   \<and> (\<exists>b'. \<not> bit (regs b' PCF85063A_CTRL2) 3 \<and> fst (pcf85063a_get_pending_int b') \<noteq> 0)"
proof -
  let ?b = "\<lparr>regs = (\<lambda>a. 0), log = [], fault = (\<lambda>n. - EIO)\<rparr>"
  have C: "\<not> bit (regs ?b PCF85063A_CTRL2) 3 \<and> fst (pcf85063a_get_pending_int ?b) \<noteq> 0"
    by (simp add: get_pending_int_fail int_to_u32_bits EIO_def)
  have P1: "fault b (length (log b)) \<noteq> 0 \<longrightarrow>
      pcf85063a_get_pending_int b =
        (int_to_u32 (fault b (length (log b))), b\<lparr>log := log b @ [Reg_read PCF85063A_CTRL2]\<rparr>)
      \<and> fst (pcf85063a_get_pending_int b) \<noteq> 0
      \<and> uint (fst (pcf85063a_get_pending_int b)) = sint (fault b (length (log b))) mod 2 ^ 32"
    using get_pending_int_fail [of b] uint_int_to_u32 by (auto simp: int_to_u32_bits)
  have P2: "fault b (length (log b)) = 0 \<longrightarrow>
      (fst (pcf85063a_get_pending_int b) \<noteq> 0 \<longleftrightarrow> bit (regs b PCF85063A_CTRL2) 3)"
    using get_pending_int_ok [of b] by simp
  have P3: "\<exists>b'. \<not> bit (regs b' PCF85063A_CTRL2) 3 \<and> fst (pcf85063a_get_pending_int b') \<noteq> 0"
    using C by (rule exI)
  show ?thesis
    using P1 P2 P3 by (intro conjI)
qed

theorem get_pending_int_returns_error_code_witness:
  "fault \<lparr>regs = (\<lambda>a. 0), log = [], fault = (\<lambda>n. - EIO)\<rparr> 0 \<noteq> 0
   \<and> \<not> bit (regs \<lparr>regs = (\<lambda>a. 0), log = [], fault = (\<lambda>n. - EIO)\<rparr> PCF85063A_CTRL2) 3
   \<and> fst (pcf85063a_get_pending_int \<lparr>regs = (\<lambda>a. 0), log = [], fault = (\<lambda>n. - EIO)\<rparr>)
       = 4294967291"
  using get_pending_int_returns_error_code
    [of "\<lparr>regs = (\<lambda>a. 0), log = [], fault = (\<lambda>n. - EIO)\<rparr>"]
  by (simp add: EIO_def int_to_u32_bits)

section \<open>The countdown timer\<close>

lemma set_alarm_cases:
  "pcf85063a_set_alarm b t =
    (if fault b (length (log b)) \<noteq> 0
     then (fault b (length (log b)), b\<lparr>log := log b @ [Reg_update PCF85063A_CTRL2 PCF85063A_CTRL2_TF 0]\<rparr>)
     else if fault b (Suc (length (log b))) \<noteq> 0
     then (fault b (Suc (length (log b))),
           b\<lparr>log := log b @ [Reg_update PCF85063A_CTRL2 PCF85063A_CTRL2_TF 0,
                              Reg_write PCF85063A_TIMER_VALUE (ucast t)],
             regs := (regs b)(PCF85063A_CTRL2 := unset_bit 3 (regs b PCF85063A_CTRL2))\<rparr>)
     else if fault b (Suc (Suc (length (log b)))) \<noteq> 0
     then (fault b (Suc (Suc (length (log b)))),
           b\<lparr>log := log b @ [Reg_update PCF85063A_CTRL2 PCF85063A_CTRL2_TF 0,
                              Reg_write PCF85063A_TIMER_VALUE (ucast t),
                              Reg_update PCF85063A_TIMER_MODE 0x1e 0x16],
             regs := (regs b)(PCF85063A_CTRL2 := unset_bit 3 (regs b PCF85063A_CTRL2),
                              PCF85063A_TIMER_VALUE := ucast t)\<rparr>)
     else (0,
           b\<lparr>log := log b @ [Reg_update PCF85063A_CTRL2 PCF85063A_CTRL2_TF 0,
                              Reg_write PCF85063A_TIMER_VALUE (ucast t),
                              Reg_update PCF85063A_TIMER_MODE 0x1e 0x16],
             regs := (regs b)(PCF85063A_CTRL2 := unset_bit 3 (regs b PCF85063A_CTRL2),
                              PCF85063A_TIMER_VALUE := ucast t,
                              PCF85063A_TIMER_MODE := (regs b PCF85063A_TIMER_MODE AND NOT 0x1e) OR 0x16)\<rparr>))"
  apply (simp add: pcf85063a_set_alarm_def Let_def i2c_reg_update_byte_dt_def i2c_reg_write_byte_dt_def
      issue_def next_ret_def split: prod.splits)
  apply (simp add: regdefs unset_bit_eq_and_not)
  done

lemma cancel_alarm_cases:
  "pcf85063a_cancel_alarm b =
    (if fault b (length (log b)) \<noteq> 0
     then (fault b (length (log b)), b\<lparr>log := log b @ [Reg_update PCF85063A_CTRL2 PCF85063A_CTRL2_TF 0]\<rparr>)
     else if fault b (Suc (length (log b))) \<noteq> 0
     then (fault b (Suc (length (log b))),
           b\<lparr>log := log b @ [Reg_update PCF85063A_CTRL2 PCF85063A_CTRL2_TF 0,
                              Reg_update PCF85063A_TIMER_MODE 0x07 0],
             regs := (regs b)(PCF85063A_CTRL2 := unset_bit 3 (regs b PCF85063A_CTRL2))\<rparr>)
     else (0,
           b\<lparr>log := log b @ [Reg_update PCF85063A_CTRL2 PCF85063A_CTRL2_TF 0,
                              Reg_update PCF85063A_TIMER_MODE 0x07 0],
             regs := (regs b)(PCF85063A_CTRL2 := unset_bit 3 (regs b PCF85063A_CTRL2),
                              PCF85063A_TIMER_MODE := regs b PCF85063A_TIMER_MODE AND NOT 0x07)\<rparr>))"
  apply (simp add: pcf85063a_cancel_alarm_def Let_def i2c_reg_update_byte_dt_def
      issue_def next_ret_def split: prod.splits)
  apply (simp add: regdefs unset_bit_eq_and_not)
  done

lemma masked_field_u8:
  "v AND m = v \<Longrightarrow> ((x AND NOT m) OR v) AND m = (v::u8)"
  "v AND m = v \<Longrightarrow> ((x AND NOT m) OR v) AND NOT m = x AND NOT m"
proof -
  assume h: "v AND m = v"
  have b: "bit v n \<Longrightarrow> bit m n" for n
    using h by (metis bit_and_iff)
  show "((x AND NOT m) OR v) AND m = v"
    by (rule bit_eqI) (auto simp: bit_simps dest: b)
  show "((x AND NOT m) OR v) AND NOT m = x AND NOT m"
    by (rule bit_eqI) (auto simp: bit_simps dest: b)
qed

text \<open>
  Claim C3. A \<^verbatim>\<open>set_alarm\<close> that returns 0 has issued exactly three transactions, in
  this order: a masked update of control-2 whose mask is the timer flag (bit 3) alone
  and whose value clears it; a plain write of the tick count, cast to \<^verbatim>\<open>uint8_t\<close>, to the
  timer-value register (the count itself when it is at most 255); one masked update of
  the timer-mode register with mask \<open>0x1e\<close> and value \<open>0x16\<close>, which puts the
  frequency field to 1 Hz and sets the timer-enable and interrupt-enable bits together
  and leaves the other bits of the register. The flag is cleared before the mode is
  written.
\<close>

theorem set_alarm_sequence:
  assumes ok: "fst (pcf85063a_set_alarm b t) = 0"
  shows "log (snd (pcf85063a_set_alarm b t)) =
           log b @ [Reg_update PCF85063A_CTRL2 PCF85063A_CTRL2_TF 0,
                    Reg_write PCF85063A_TIMER_VALUE (ucast t),
                    Reg_update PCF85063A_TIMER_MODE
                      (PCF85063A_TIMER_MODE_FREQ_MASK OR PCF85063A_TIMER_MODE_EN
                         OR PCF85063A_TIMER_MODE_INT_EN)
                      (push_bit PCF85063A_TIMER_MODE_FREQ_SHIFT PCF85063A_TIMER_MODE_FREQ_1
                         OR PCF85063A_TIMER_MODE_EN OR PCF85063A_TIMER_MODE_INT_EN)]
    \<and> regs (snd (pcf85063a_set_alarm b t)) =
          (regs b)(PCF85063A_CTRL2 := unset_bit 3 (regs b PCF85063A_CTRL2),
                   PCF85063A_TIMER_VALUE := ucast t,
                   PCF85063A_TIMER_MODE := (regs b PCF85063A_TIMER_MODE AND NOT 0x1e) OR 0x16)
    \<and> regs (snd (pcf85063a_set_alarm b t)) PCF85063A_TIMER_MODE AND 0x1e = 0x16
    \<and> regs (snd (pcf85063a_set_alarm b t)) PCF85063A_TIMER_MODE AND NOT 0x1e =
          regs b PCF85063A_TIMER_MODE AND NOT 0x1e
    \<and> PCF85063A_CTRL2_TF = push_bit 3 1
    \<and> (unat t \<le> 255 \<longrightarrow> unat (ucast t :: u8) = unat t)
    \<and> fault b (length (log b)) = 0 \<and> fault b (length (log b) + 1) = 0
    \<and> fault b (length (log b) + 2) = 0"
proof -
  have f: "fault b (length (log b)) = 0" "fault b (Suc (length (log b))) = 0"
    "fault b (Suc (Suc (length (log b)))) = 0"
    using ok by (auto simp: set_alarm_cases split: if_splits)
  have eq: "pcf85063a_set_alarm b t = (0,
           b\<lparr>log := log b @ [Reg_update PCF85063A_CTRL2 PCF85063A_CTRL2_TF 0,
                              Reg_write PCF85063A_TIMER_VALUE (ucast t),
                              Reg_update PCF85063A_TIMER_MODE 0x1e 0x16],
             regs := (regs b)(PCF85063A_CTRL2 := unset_bit 3 (regs b PCF85063A_CTRL2),
                              PCF85063A_TIMER_VALUE := ucast t,
                              PCF85063A_TIMER_MODE := (regs b PCF85063A_TIMER_MODE AND NOT 0x1e) OR 0x16)\<rparr>)"
    using f by (simp add: set_alarm_cases)
  have m: "PCF85063A_TIMER_MODE_FREQ_MASK OR PCF85063A_TIMER_MODE_EN
             OR PCF85063A_TIMER_MODE_INT_EN = 0x1e"
    "push_bit PCF85063A_TIMER_MODE_FREQ_SHIFT PCF85063A_TIMER_MODE_FREQ_1
        OR PCF85063A_TIMER_MODE_EN OR PCF85063A_TIMER_MODE_INT_EN = 0x16"
    "PCF85063A_CTRL2_TF = push_bit 3 1"
    by (simp_all add: regdefs)
  have fld: "((regs b PCF85063A_TIMER_MODE AND NOT 0x1e) OR 0x16) AND 0x1e = 0x16"
    "((regs b PCF85063A_TIMER_MODE AND NOT 0x1e) OR 0x16) AND NOT 0x1e =
        regs b PCF85063A_TIMER_MODE AND NOT 0x1e"
    by (rule masked_field_u8, simp)+
  have tr: "unat t \<le> 255 \<longrightarrow> unat (ucast t :: u8) = unat t"
    by (simp add: unsigned_ucast_eq take_bit_nat_eq_self)
  show ?thesis
    using f fld tr m by (simp add: eq)
qed

theorem set_alarm_sequence_witness:
  "fst (pcf85063a_set_alarm \<lparr>regs = (\<lambda>a. 0xff), log = [], fault = (\<lambda>n. 0)\<rparr> 200) = 0
   \<and> unat (200 :: u32) \<le> 255
   \<and> log (snd (pcf85063a_set_alarm \<lparr>regs = (\<lambda>a. 0xff), log = [], fault = (\<lambda>n. 0)\<rparr> 200)) =
        [Reg_update 0x01 0x08 0, Reg_write 0x10 200, Reg_update 0x11 0x1e 0x16]
   \<and> regs (snd (pcf85063a_set_alarm \<lparr>regs = (\<lambda>a. 0xff), log = [], fault = (\<lambda>n. 0)\<rparr> 200)) =
        (\<lambda>a. 0xff)(0x01 := 0xf7, 0x10 := 200, 0x11 := 0xf7)"
proof -
  let ?B = "\<lparr>regs = (\<lambda>a. 0xff), log = [], fault = (\<lambda>n. 0)\<rparr>"
  have h: "fst (pcf85063a_set_alarm ?B 200) = 0"
    by (simp add: set_alarm_cases)
  show ?thesis
    using set_alarm_sequence [OF h] h by (simp add: regdefs)
qed

text \<open>
  Claim C8. When the transport does not fail, \<^verbatim>\<open>cancel_alarm\<close> returns 0 after two
  masked updates: the first clears the timer flag (bit 3) of control-2 and nothing else,
  the second clears the timer-enable, interrupt-enable and interrupt-type bits (mask
  \<open>0x07\<close>) of the timer-mode register in one transaction; no other bit and no other
  register changes. When the flag and the three bits are clear already, every register
  keeps its value; and a second \<^verbatim>\<open>cancel_alarm\<close> leaves the registers as the first
  left them.
\<close>

theorem cancel_alarm_noop_when_disarmed:
  assumes f0: "fault b (length (log b)) = 0"
      and f1: "fault b (length (log b) + 1) = 0"
  shows "pcf85063a_cancel_alarm b =
           (0, b\<lparr>log := log b @ [Reg_update PCF85063A_CTRL2 PCF85063A_CTRL2_TF 0,
                                   Reg_update PCF85063A_TIMER_MODE
                                     (PCF85063A_TIMER_MODE_EN OR PCF85063A_TIMER_MODE_INT_EN
                                        OR PCF85063A_TIMER_MODE_INT_TI_TP) 0],
                  regs := (regs b)
                    (PCF85063A_CTRL2 := unset_bit 3 (regs b PCF85063A_CTRL2),
                     PCF85063A_TIMER_MODE := regs b PCF85063A_TIMER_MODE AND NOT 0x07)\<rparr>)
    \<and> PCF85063A_CTRL2_TF = push_bit 3 1
    \<and> PCF85063A_TIMER_MODE_EN OR PCF85063A_TIMER_MODE_INT_EN
         OR PCF85063A_TIMER_MODE_INT_TI_TP = 0x07
    \<and> (\<not> bit (regs b PCF85063A_CTRL2) 3 \<and> regs b PCF85063A_TIMER_MODE AND 0x07 = 0
         \<longrightarrow> regs (snd (pcf85063a_cancel_alarm b)) = regs b)
    \<and> (fault b (length (log b) + 2) = 0 \<and> fault b (length (log b) + 3) = 0
         \<longrightarrow> pcf85063a_cancel_alarm (snd (pcf85063a_cancel_alarm b)) =
               (0, b\<lparr>log := log b @ [Reg_update PCF85063A_CTRL2 PCF85063A_CTRL2_TF 0,
                                       Reg_update PCF85063A_TIMER_MODE 0x07 0,
                                       Reg_update PCF85063A_CTRL2 PCF85063A_CTRL2_TF 0,
                                       Reg_update PCF85063A_TIMER_MODE 0x07 0],
                      regs := regs (snd (pcf85063a_cancel_alarm b))\<rparr>))"
proof -
  have f: "fault b (length (log b)) = 0" "fault b (Suc (length (log b))) = 0"
    using f0 f1 by simp_all
  have eq: "pcf85063a_cancel_alarm b = (0,
           b\<lparr>log := log b @ [Reg_update PCF85063A_CTRL2 PCF85063A_CTRL2_TF 0,
                              Reg_update PCF85063A_TIMER_MODE 0x07 0],
             regs := (regs b)(PCF85063A_CTRL2 := unset_bit 3 (regs b PCF85063A_CTRL2),
                              PCF85063A_TIMER_MODE := regs b PCF85063A_TIMER_MODE AND NOT 0x07)\<rparr>)"
    using f by (simp add: cancel_alarm_cases)
  have m: "PCF85063A_TIMER_MODE_EN OR PCF85063A_TIMER_MODE_INT_EN
             OR PCF85063A_TIMER_MODE_INT_TI_TP = 0x07"
    "PCF85063A_CTRL2_TF = push_bit 3 1"
    by (simp_all add: regdefs)
  have ne: "PCF85063A_CTRL2 \<noteq> PCF85063A_TIMER_MODE"
    by (simp add: regdefs)
  have noop: "regs (snd (pcf85063a_cancel_alarm b)) = regs b"
    if "\<not> bit (regs b PCF85063A_CTRL2) 3" "regs b PCF85063A_TIMER_MODE AND 0x07 = 0"
  proof -
    have 1: "unset_bit 3 (regs b PCF85063A_CTRL2) = regs b PCF85063A_CTRL2"
      using that(1) by (rule_tac bit_eqI) (auto simp: bit_simps)
    have 2: "regs b PCF85063A_TIMER_MODE AND NOT 0x07 = regs b PCF85063A_TIMER_MODE"
      using that(2) by (metis and.right_neutral bit.conj_disj_distrib bit.disj_cancel_right or.left_neutral)
    show ?thesis using 1 2 by (simp add: eq)
  qed
  have idem: "pcf85063a_cancel_alarm (snd (pcf85063a_cancel_alarm b)) =
               (0, b\<lparr>log := log b @ [Reg_update PCF85063A_CTRL2 PCF85063A_CTRL2_TF 0,
                                       Reg_update PCF85063A_TIMER_MODE 0x07 0,
                                       Reg_update PCF85063A_CTRL2 PCF85063A_CTRL2_TF 0,
                                       Reg_update PCF85063A_TIMER_MODE 0x07 0],
                      regs := regs (snd (pcf85063a_cancel_alarm b))\<rparr>)"
    if g: "fault b (length (log b) + 2) = 0" "fault b (length (log b) + 3) = 0"
  proof -
    let ?b1 = "snd (pcf85063a_cancel_alarm b)"
    have g': "fault ?b1 (length (log ?b1)) = 0" "fault ?b1 (Suc (length (log ?b1))) = 0"
      using g by (simp_all add: eq numeral_3_eq_3)
    have "pcf85063a_cancel_alarm ?b1 = (0,
           ?b1\<lparr>log := log ?b1 @ [Reg_update PCF85063A_CTRL2 PCF85063A_CTRL2_TF 0,
                              Reg_update PCF85063A_TIMER_MODE 0x07 0],
             regs := (regs ?b1)(PCF85063A_CTRL2 := unset_bit 3 (regs ?b1 PCF85063A_CTRL2),
                              PCF85063A_TIMER_MODE := regs ?b1 PCF85063A_TIMER_MODE AND NOT 0x07)\<rparr>)"
      using g' by (simp add: cancel_alarm_cases [of ?b1])
    moreover have "(regs ?b1)(PCF85063A_CTRL2 := unset_bit 3 (regs ?b1 PCF85063A_CTRL2),
                     PCF85063A_TIMER_MODE := regs ?b1 PCF85063A_TIMER_MODE AND NOT 0x07) = regs ?b1"
      using ne by (simp add: eq and.assoc)
    ultimately show ?thesis by (simp add: eq)
  qed
  show ?thesis
    using noop idem m by (simp add: eq)
qed

theorem cancel_alarm_noop_when_disarmed_witness:
  "fault \<lparr>regs = (\<lambda>a. 0xff), log = [], fault = no_fault\<rparr> 0 = 0
   \<and> fault \<lparr>regs = (\<lambda>a. 0xff), log = [], fault = no_fault\<rparr> 1 = 0
   \<and> bit (regs \<lparr>regs = (\<lambda>a. 0xff), log = [], fault = no_fault\<rparr> PCF85063A_CTRL2) 3
   \<and> pcf85063a_cancel_alarm \<lparr>regs = (\<lambda>a. 0xff), log = [], fault = no_fault\<rparr> =
        (0, \<lparr>regs = (\<lambda>a. 0xff)(0x01 := 0xf7, 0x11 := 0xf8),
               log = [Reg_update 0x01 0x08 0, Reg_update 0x11 0x07 0],
               fault = no_fault\<rparr>)
   \<and> pcf85063a_cancel_alarm (snd (pcf85063a_cancel_alarm
          \<lparr>regs = (\<lambda>a. 0xff), log = [], fault = no_fault\<rparr>)) =
        (0, \<lparr>regs = (\<lambda>a. 0xff)(0x01 := 0xf7, 0x11 := 0xf8),
               log = [Reg_update 0x01 0x08 0, Reg_update 0x11 0x07 0,
                      Reg_update 0x01 0x08 0, Reg_update 0x11 0x07 0],
               fault = no_fault\<rparr>)
   \<and> \<not> bit (regs \<lparr>regs = zero_regs, log = [], fault = no_fault\<rparr> PCF85063A_CTRL2) 3
   \<and> regs \<lparr>regs = zero_regs, log = [], fault = no_fault\<rparr> PCF85063A_TIMER_MODE AND 0x07 = 0
   \<and> pcf85063a_cancel_alarm \<lparr>regs = zero_regs, log = [], fault = no_fault\<rparr> =
        (0, \<lparr>regs = zero_regs,
               log = [Reg_update 0x01 0x08 0, Reg_update 0x11 0x07 0],
               fault = no_fault\<rparr>)"
proof -
  let ?A = "\<lparr>regs = (\<lambda>a. 0xff), log = [], fault = no_fault\<rparr>"
  let ?Z = "\<lparr>regs = zero_regs, log = [], fault = no_fault\<rparr>"
  have fa: "fault ?A (length (log ?A)) = 0" "fault ?A (length (log ?A) + 1) = 0"
    by (simp_all add: no_fault_def)
  have fz: "fault ?Z (length (log ?Z)) = 0" "fault ?Z (length (log ?Z) + 1) = 0"
    by (simp_all add: no_fault_def)
  have v: "unset_bit 3 (0xff :: u8) = 0xf7" "(0xff :: u8) AND NOT 0x07 = 0xf8"
    by code_simp+
  note a = cancel_alarm_noop_when_disarmed [OF fa]
  note z = cancel_alarm_noop_when_disarmed [OF fz]
  have a1: "pcf85063a_cancel_alarm ?A =
        (0, \<lparr>regs = (\<lambda>a. 0xff)(0x01 := 0xf7, 0x11 := 0xf8),
               log = [Reg_update 0x01 0x08 0, Reg_update 0x11 0x07 0],
               fault = no_fault\<rparr>)"
    using a [THEN conjunct1] v by (simp add: regdefs)
  have a2: "pcf85063a_cancel_alarm (snd (pcf85063a_cancel_alarm ?A)) =
        (0, \<lparr>regs = (\<lambda>a. 0xff)(0x01 := 0xf7, 0x11 := 0xf8),
               log = [Reg_update 0x01 0x08 0, Reg_update 0x11 0x07 0,
                      Reg_update 0x01 0x08 0, Reg_update 0x11 0x07 0],
               fault = no_fault\<rparr>)"
    using a [THEN conjunct2, THEN conjunct2, THEN conjunct2, THEN conjunct2]
    by (simp add: a1 no_fault_def regdefs)
  have z1: "pcf85063a_cancel_alarm ?Z =
        (0, \<lparr>regs = zero_regs,
               log = [Reg_update 0x01 0x08 0, Reg_update 0x11 0x07 0],
               fault = no_fault\<rparr>)"
    using z [THEN conjunct1] z [THEN conjunct2, THEN conjunct2, THEN conjunct2, THEN conjunct1]
    by (simp add: regdefs zero_regs_def fun_upd_idem)
  show ?thesis
    using a1 a2 z1 by (simp add: no_fault_def zero_regs_def regdefs)
qed

section \<open>The calendar codec\<close>

lemma load_bytes_7:
  "load_bytes a 7 r = [r a, r (a + 1), r (a + 2), r (a + 3), r (a + 4), r (a + 5), r (a + 6)]"
  by (simp add: eval_nat_numeral add.assoc)

lemma burst_read_7_ok:
  "next_ret b = 0 \<Longrightarrow> i2c_burst_read_dt a (replicate 7 0) b =
     (0, [regs b a, regs b (a + 1), regs b (a + 2), regs b (a + 3), regs b (a + 4),
          regs b (a + 5), regs b (a + 6)],
      b\<lparr>log := log b @ [Burst_read a 7]\<rparr>)"
  by (simp add: i2c_burst_read_dt_def issue_def load_bytes_7)

lemma burst_write_ok:
  "next_ret b = 0 \<Longrightarrow> i2c_burst_write_dt a buf b =
     (0, b\<lparr>log := log b @ [Burst_write a buf], regs := store_bytes a buf (regs b)\<rparr>)"
  by (simp add: i2c_burst_write_dt_def issue_def)

lemma os_bit: "(x AND PCF85063A_SECONDS_OS \<noteq> 0) = bit (x::u8) 7"
  by (simp add: PCF85063A_SECONDS_OS_def BIT_def bit_iff_and_push_bit_not_eq_0)

lemma get_time_unfold:
  assumes "fault b (length (log b)) = 0"
  shows "pcf85063a_get_time b time =
     (if bit (regs b 0x04) 7
      then (Returned (- EIO), time, b\<lparr>log := log b @ [Burst_read 0x04 7]\<rparr>)
      else case get_yday (tm_mon (decode_fields (image b) time))
                  (tm_mday (decode_fields (image b) time))
                  (tm_year (decode_fields (image b) time) + 1900) of
             None \<Rightarrow> (Out_of_bounds_read, decode_fields (image b) time,
                        b\<lparr>log := log b @ [Burst_read 0x04 7]\<rparr>)
           | Some yday \<Rightarrow> (Returned 0,
                        (decode_fields (image b) time)\<lparr>tm_yday := yday, tm_isdst := 0\<rparr>,
                        b\<lparr>log := log b @ [Burst_read 0x04 7]\<rparr>))"
  using assms
  by (simp add: pcf85063a_get_time_def burst_read_7_ok next_ret_def os_bit Let_def image_def
      PCF85063A_SECONDS_def split: option.split)

text \<open>
  Claim C2. When the burst read succeeds and the seconds byte of the register image has
  its top bit (the oscillator-stop flag) set, \<^verbatim>\<open>get_time\<close> returns \<^verbatim>\<open>-EIO\<close>, which is
  not 0, and the caller's time structure is as it was: no field has been written.
\<close>

theorem get_time_integrity_error:
  assumes "fault b (length (log b)) = 0" and "bit (regs b PCF85063A_SECONDS) 7"
  shows "pcf85063a_get_time b time =
           (Returned (- EIO), time, b\<lparr>log := log b @ [Burst_read PCF85063A_SECONDS 7]\<rparr>)
         \<and> - EIO \<noteq> (0 :: int32)"
  using assms by (simp add: get_time_unfold PCF85063A_SECONDS_def EIO_def)

theorem get_time_integrity_error_witness:
  "fault \<lparr>regs = zero_regs(0x04 := 0x80), log = [], fault = no_fault\<rparr> 0 = 0
   \<and> bit (regs \<lparr>regs = zero_regs(0x04 := 0x80), log = [], fault = no_fault\<rparr>
             PCF85063A_SECONDS) 7
   \<and> pcf85063a_get_time \<lparr>regs = zero_regs(0x04 := 0x80), log = [], fault = no_fault\<rparr>
        zero_tm =
      (Returned (- 5), zero_tm,
       \<lparr>regs = zero_regs(0x04 := 0x80), log = [Burst_read 0x04 7], fault = no_fault\<rparr>)"
  using get_time_integrity_error
    [of "\<lparr>regs = zero_regs(0x04 := 0x80), log = [], fault = no_fault\<rparr>" zero_tm]
  by (simp add: no_fault_def PCF85063A_SECONDS_def EIO_def)

lemma masked_byte: "ucast (m AND x :: int32) AND NOT (ucast m :: u8) = 0"
  by (rule bit_eqI) (auto simp: bit_simps)

lemma bcd_pack_masked: "bcd_pack m v AND NOT (ucast m) = 0"
  unfolding bcd_pack_def by (rule masked_byte)

lemma u8_all:
  assumes "list_all (\<lambda>n. P (of_nat n :: u8)) [0..<256]"
  shows "P x"
proof -
  have lt: "unat x < 256" using unsigned_less [of x] by simp
  have all: "\<forall>n\<in>{0..<256}. P (of_nat n)" using assms by (simp add: list_all_iff)
  from bspec [OF all, of "unat x"] lt show ?thesis by simp
qed

lemma int32_range:
  assumes "0 \<le> sint x" "sint x < int N" "list_all (\<lambda>n. P (of_nat n :: int32)) [0..<N]"
  shows "P x"
proof -
  have lt: "nat (sint x) < N" using assms by simp
  have all: "\<forall>n\<in>{0..<N}. P (of_nat n)" using assms(3) by (simp add: list_all_iff)
  have "(of_nat (nat (sint x)) :: int32) = x"
    using assms(1) by simp
  with bspec [OF all, of "nat (sint x)"] lt show ?thesis by simp
qed

lemma sint_small: "- 1000 < k \<Longrightarrow> k < 1000 \<Longrightarrow> sint (word_of_int k :: int32) = k"
  by (simp add: signed_of_int signed_take_bit_int_eq_self)

lemma c_mod_zero_iff:
  assumes "0 < k" "k < 1000"
  shows "c_mod y (word_of_int k) = 0 \<longleftrightarrow> k dvd sint y"
proof -
  let ?r = "sint y smod k"
  have k: "sint (word_of_int k :: int32) = k" using assms by (simp add: sint_small)
  have rng: "- k < ?r" "?r < k"
    using assms smod_int_range [of k "sint y"] by auto
  have "c_mod y (word_of_int k) = word_of_int ?r" by (simp add: c_mod_def k)
  moreover have "(word_of_int ?r :: int32) = 0 \<longleftrightarrow> ?r = 0"
  proof
    assume "(word_of_int ?r :: int32) = 0"
    then have "sint (word_of_int ?r :: int32) = 0" by simp
    then show "?r = 0" using rng assms by (simp add: sint_small)
  qed simp
  moreover have "?r = 0 \<longleftrightarrow> k dvd sint y"
  proof -
    have "?r = 0 \<longleftrightarrow> \<bar>sint y\<bar> mod k = 0"
      using assms by (auto simp: smod_int_alt_def sgn_if)
    also have "\<dots> \<longleftrightarrow> k dvd \<bar>sint y\<bar>" by (simp add: mod_eq_0_iff_dvd)
    also have "\<dots> \<longleftrightarrow> k dvd sint y" by simp
    finally show ?thesis .
  qed
  ultimately show ?thesis by simp
qed

lemma yisleap_spec: "yisleap y = (if spec_is_leap (sint y) then 1 else 0)"
  using c_mod_zero_iff [of 4 y] c_mod_zero_iff [of 100 y] c_mod_zero_iff [of 400 y]
  by (simp add: yisleap_def spec_is_leap_def)

lemma days_leap:
  fixes mon :: int32
  assumes "0 \<le> sint mon" "sint mon < 12"
  shows "days ! 1 ! nat (sint mon) = of_nat (sum_list (take (nat (sint mon)) (month_lengths True)))"
  by (rule int32_range [where x = mon and N = 12]) (use assms in simp, use assms in simp, code_simp)

lemma days_common:
  fixes mon :: int32
  assumes "0 \<le> sint mon" "sint mon < 12"
  shows "days ! 0 ! nat (sint mon) = of_nat (sum_list (take (nat (sint mon)) (month_lengths False)))"
  by (rule int32_range [where x = mon and N = 12]) (use assms in simp, use assms in simp, code_simp)

lemma get_yday_spec:
  assumes "0 \<le> sint mon" "sint mon < 12"
  shows "get_yday mon day year =
    Some (word_of_int (spec_day_of_year (spec_is_leap (sint year)) (nat (sint mon)) (sint day)))"
  using assms days_leap [OF assms] days_common [OF assms]
  by (simp add: get_yday_def yisleap_spec spec_day_of_year_def)

lemma yday_march_2000: "get_yday 2 1 2000 = Some 60"
  by code_simp

lemma yday_march_2001: "get_yday 2 1 2001 = Some 59"
  by code_simp

lemma unpack_small:
  "bcd_unpack PCF85063A_BCD_UPPER_MASK 0 = 0"
  "bcd_unpack PCF85063A_BCD_UPPER_MASK 1 = 1"
  "bcd_unpack PCF85063A_BCD_UPPER_MASK 2 = 2"
  by code_simp+

lemma get_time_fields:
  assumes "fault b (length (log b)) = 0" "\<not> bit (regs b 0x04) 7"
  shows "tm_sec (fst (snd (pcf85063a_get_time b time))) =
           bcd_unpack PCF85063A_BCD_UPPER_MASK_SEC (regs b 0x04)"
    and "tm_min (fst (snd (pcf85063a_get_time b time))) =
           bcd_unpack PCF85063A_BCD_UPPER_MASK (regs b 0x05)"
    and "tm_hour (fst (snd (pcf85063a_get_time b time))) =
           bcd_unpack PCF85063A_BCD_UPPER_MASK (regs b 0x06)"
    and "tm_mday (fst (snd (pcf85063a_get_time b time))) =
           bcd_unpack PCF85063A_BCD_UPPER_MASK (regs b 0x07)"
    and "tm_wday (fst (snd (pcf85063a_get_time b time))) =
           bcd_unpack PCF85063A_BCD_UPPER_MASK (regs b 0x08)"
    and "tm_mon (fst (snd (pcf85063a_get_time b time))) =
           bcd_unpack PCF85063A_BCD_UPPER_MASK (regs b 0x09)"
    and "tm_year (fst (snd (pcf85063a_get_time b time))) =
           bcd_unpack PCF85063A_BCD_UPPER_MASK (regs b 0x0a) + 100"
  using assms
  by (simp_all add: get_time_unfold decode_fields_def image_def split: option.split)

lemma get_time_yday:
  assumes "fault b (length (log b)) = 0" "\<not> bit (regs b 0x04) 7"
    and "get_yday (bcd_unpack PCF85063A_BCD_UPPER_MASK (regs b 0x09))
           (bcd_unpack PCF85063A_BCD_UPPER_MASK (regs b 0x07))
           (bcd_unpack PCF85063A_BCD_UPPER_MASK (regs b 0x0a) + 100 + 1900) = Some yd"
  shows "fst (pcf85063a_get_time b time) = Returned 0"
    and "tm_yday (fst (snd (pcf85063a_get_time b time))) = yd"
    and "tm_isdst (fst (snd (pcf85063a_get_time b time))) = 0"
  using assms
  by (simp_all add: get_time_unfold decode_fields_def image_def)

text \<open>
  Claim C5. \<^verbatim>\<open>yisleap\<close> is 1 exactly for the years that are divisible by 4 and not by
  100, or divisible by 400. For a month index in \<open>0..11\<close>, \<^verbatim>\<open>get_yday\<close> is the number
  of days of the months before (in the leap or the common year) plus the day of the
  month minus one. For a register image of March 1 (month byte 2, day byte 1) the day of
  the year that \<^verbatim>\<open>get_time\<close> derives is 60 with year byte \<open>0x00\<close> (2000) and 59 with
  year byte \<open>0x01\<close> (2001).
\<close>

theorem day_of_year_matches_reference:
  "yisleap year = (if spec_is_leap (sint year) then 1 else 0)
   \<and> (0 \<le> sint mon \<and> sint mon < 12 \<longrightarrow>
        get_yday mon day year =
          Some (word_of_int (spec_day_of_year (spec_is_leap (sint year)) (nat (sint mon))
                  (sint day))))
   \<and> (fault b (length (log b)) = 0 \<and> \<not> bit (regs b 0x04) 7
        \<and> regs b 0x07 = 0x01 \<and> regs b 0x09 = 0x02 \<and> regs b 0x0a = 0x00 \<longrightarrow>
        fst (pcf85063a_get_time b time) = Returned 0
        \<and> tm_mon (fst (snd (pcf85063a_get_time b time))) = 2
        \<and> tm_mday (fst (snd (pcf85063a_get_time b time))) = 1
        \<and> tm_year (fst (snd (pcf85063a_get_time b time))) + 1900 = 2000
        \<and> tm_yday (fst (snd (pcf85063a_get_time b time))) = 60)
   \<and> (fault b (length (log b)) = 0 \<and> \<not> bit (regs b 0x04) 7
        \<and> regs b 0x07 = 0x01 \<and> regs b 0x09 = 0x02 \<and> regs b 0x0a = 0x01 \<longrightarrow>
        fst (pcf85063a_get_time b time) = Returned 0
        \<and> tm_mon (fst (snd (pcf85063a_get_time b time))) = 2
        \<and> tm_mday (fst (snd (pcf85063a_get_time b time))) = 1
        \<and> tm_year (fst (snd (pcf85063a_get_time b time))) + 1900 = 2001
        \<and> tm_yday (fst (snd (pcf85063a_get_time b time))) = 59)"
proof -
  have A: "0 \<le> sint mon \<and> sint mon < 12 \<longrightarrow>
        get_yday mon day year =
          Some (word_of_int (spec_day_of_year (spec_is_leap (sint year)) (nat (sint mon))
                  (sint day)))"
    using get_yday_spec [of mon day year] by simp
  have B: "fst (pcf85063a_get_time b time) = Returned 0
        \<and> tm_mon (fst (snd (pcf85063a_get_time b time))) = 2
        \<and> tm_mday (fst (snd (pcf85063a_get_time b time))) = 1
        \<and> tm_year (fst (snd (pcf85063a_get_time b time))) + 1900 = 2000
        \<and> tm_yday (fst (snd (pcf85063a_get_time b time))) = 60"
    if h: "fault b (length (log b)) = 0" "\<not> bit (regs b 0x04) 7"
      "regs b 0x07 = 0x01" "regs b 0x09 = 0x02" "regs b 0x0a = 0x00"
  proof -
    have y: "get_yday (bcd_unpack PCF85063A_BCD_UPPER_MASK (regs b 0x09))
           (bcd_unpack PCF85063A_BCD_UPPER_MASK (regs b 0x07))
           (bcd_unpack PCF85063A_BCD_UPPER_MASK (regs b 0x0a) + 100 + 1900) = Some 60"
      using yday_march_2000 by (simp add: h unpack_small)
    show ?thesis
      using get_time_yday [OF h(1,2) y, of time] get_time_fields [OF h(1,2), of time]
      by (simp add: h unpack_small)
  qed
  have C: "fst (pcf85063a_get_time b time) = Returned 0
        \<and> tm_mon (fst (snd (pcf85063a_get_time b time))) = 2
        \<and> tm_mday (fst (snd (pcf85063a_get_time b time))) = 1
        \<and> tm_year (fst (snd (pcf85063a_get_time b time))) + 1900 = 2001
        \<and> tm_yday (fst (snd (pcf85063a_get_time b time))) = 59"
    if h: "fault b (length (log b)) = 0" "\<not> bit (regs b 0x04) 7"
      "regs b 0x07 = 0x01" "regs b 0x09 = 0x02" "regs b 0x0a = 0x01"
  proof -
    have y: "get_yday (bcd_unpack PCF85063A_BCD_UPPER_MASK (regs b 0x09))
           (bcd_unpack PCF85063A_BCD_UPPER_MASK (regs b 0x07))
           (bcd_unpack PCF85063A_BCD_UPPER_MASK (regs b 0x0a) + 100 + 1900) = Some 59"
      using yday_march_2001 by (simp add: h unpack_small)
    show ?thesis
      using get_time_yday [OF h(1,2) y, of time] get_time_fields [OF h(1,2), of time]
      by (simp add: h unpack_small)
  qed
  show ?thesis
    using yisleap_spec [of year] A B C by (intro conjI impI) simp_all
qed

theorem day_of_year_matches_reference_witness:
  "fault \<lparr>regs = zero_regs(0x07 := 0x01, 0x09 := 0x02), log = [], fault = no_fault\<rparr> 0 = 0
   \<and> \<not> bit (regs \<lparr>regs = zero_regs(0x07 := 0x01, 0x09 := 0x02), log = [],
                     fault = no_fault\<rparr> 0x04) 7
   \<and> fst (pcf85063a_get_time
        \<lparr>regs = zero_regs(0x07 := 0x01, 0x09 := 0x02), log = [], fault = no_fault\<rparr> zero_tm) =
      Returned 0
   \<and> tm_yday (fst (snd (pcf85063a_get_time
        \<lparr>regs = zero_regs(0x07 := 0x01, 0x09 := 0x02), log = [], fault = no_fault\<rparr> zero_tm))) =
      60
   \<and> 0 \<le> sint (2 :: int32) \<and> sint (2 :: int32) < 12
   \<and> get_yday 2 1 2000 =
        Some (word_of_int (spec_day_of_year (spec_is_leap (sint (2000 :: int32)))
                (nat (sint (2 :: int32))) (sint (1 :: int32))))
   \<and> yisleap 2000 = 1"
  using day_of_year_matches_reference
    [of 2000 2 1 "\<lparr>regs = zero_regs(0x07 := 0x01, 0x09 := 0x02), log = [], fault = no_fault\<rparr>"
        zero_tm]
  by (simp add: zero_regs_def no_fault_def spec_is_leap_def)

lemma tens_nibble_days: "(x::u8) AND NOT 0x3f = 0 \<Longrightarrow> drop_bit 4 x \<le> 3"
  by (rule u8_all [where x = x and P = "\<lambda>x. x AND NOT 0x3f = 0 \<longrightarrow> drop_bit 4 x \<le> 3", rule_format])
     (code_simp, assumption)

lemma tens_nibble_months: "(x::u8) AND NOT 0x1f = 0 \<Longrightarrow> drop_bit 4 x \<le> 1"
  by (rule u8_all [where x = x and P = "\<lambda>x. x AND NOT 0x1f = 0 \<longrightarrow> drop_bit 4 x \<le> 1", rule_format])
     (code_simp, assumption)

lemma set_time_raw_nth:
  "set_time_raw t ! 0 = bcd_pack PCF85063A_SECONDS_MASK (tm_sec t)"
  "set_time_raw t ! 1 = bcd_pack PCF85063A_MINUTES_MASK (tm_min t)"
  "set_time_raw t ! 2 = bcd_pack PCF85063A_HOURS_MASK (tm_hour t)"
  "set_time_raw t ! 3 = bcd_pack PCF85063A_DAYS_MASK (tm_mday t)"
  "set_time_raw t ! 4 = ucast (PCF85063A_WEEKDAYS_MASK AND tm_wday t)"
  "set_time_raw t ! 5 = bcd_pack PCF85063A_MONTHS_MASK (tm_mon t)"
  "length (set_time_raw t) = 7"
  by (simp_all add: set_time_raw_def Let_def)

lemma set_time_log:
  "log (snd (pcf85063a_set_time b t)) = log b @ [Burst_write PCF85063A_SECONDS (set_time_raw t)]"
  by (simp add: pcf85063a_set_time_def i2c_burst_write_dt_def issue_def Let_def)

text \<open>
  Claim C6. Whatever the fields of the calendar time hold, in range or not, the seven
  bytes that \<^verbatim>\<open>set_time\<close> hands to the burst write have no bit outside the mask of
  their field: 7 bits for seconds and for minutes, 6 bits for hours and for the day of
  the month, 3 bits for the weekday, 5 bits for the month, and the eight bits of the
  byte for the year. So the tens nibble of the day byte has two bits and that of the
  month byte one.
\<close>

theorem set_time_bytes_within_masks:
  "log (snd (pcf85063a_set_time b t)) = log b @ [Burst_write PCF85063A_SECONDS (set_time_raw t)]
   \<and> length (set_time_raw t) = 7
   \<and> set_time_raw t ! 0 AND NOT 0x7f = 0
   \<and> set_time_raw t ! 1 AND NOT 0x7f = 0
   \<and> set_time_raw t ! 2 AND NOT 0x3f = 0
   \<and> set_time_raw t ! 3 AND NOT 0x3f = 0
   \<and> set_time_raw t ! 4 AND NOT 0x07 = 0
   \<and> set_time_raw t ! 5 AND NOT 0x1f = 0
   \<and> set_time_raw t ! 6 AND NOT 0xff = 0
   \<and> drop_bit 4 (set_time_raw t ! 3) \<le> 3
   \<and> drop_bit 4 (set_time_raw t ! 5) \<le> 1"
proof -
  have s: "set_time_raw t ! 0 AND NOT 0x7f = 0"
    unfolding set_time_raw_nth using bcd_pack_masked [of PCF85063A_SECONDS_MASK "tm_sec t"]
    by (simp add: PCF85063A_SECONDS_MASK_def)
  have mi: "set_time_raw t ! 1 AND NOT 0x7f = 0"
    unfolding set_time_raw_nth using bcd_pack_masked [of PCF85063A_MINUTES_MASK "tm_min t"]
    by (simp add: PCF85063A_MINUTES_MASK_def)
  have h: "set_time_raw t ! 2 AND NOT 0x3f = 0"
    unfolding set_time_raw_nth using bcd_pack_masked [of PCF85063A_HOURS_MASK "tm_hour t"]
    by (simp add: PCF85063A_HOURS_MASK_def)
  have d: "set_time_raw t ! 3 AND NOT 0x3f = 0"
    unfolding set_time_raw_nth using bcd_pack_masked [of PCF85063A_DAYS_MASK "tm_mday t"]
    by (simp add: PCF85063A_DAYS_MASK_def)
  have w: "set_time_raw t ! 4 AND NOT 0x07 = 0"
    unfolding set_time_raw_nth using masked_byte [of PCF85063A_WEEKDAYS_MASK "tm_wday t"]
    by (simp add: PCF85063A_WEEKDAYS_MASK_def)
  have mo: "set_time_raw t ! 5 AND NOT 0x1f = 0"
    unfolding set_time_raw_nth using bcd_pack_masked [of PCF85063A_MONTHS_MASK "tm_mon t"]
    by (simp add: PCF85063A_MONTHS_MASK_def)
  have "NOT (0xff :: u8) = 0"
    by code_simp
  then have y: "set_time_raw t ! 6 AND NOT 0xff = 0"
    by (simp only: and_zero_eq)
  show ?thesis
    using set_time_log [of b t] s mi h d w mo y tens_nibble_days [OF d] tens_nibble_months [OF mo]
      set_time_raw_nth(7) [of t]
    by simp
qed

theorem set_time_bytes_within_masks_witness:
  "set_time_raw \<lparr>tm_sec = 75, tm_min = - 1, tm_hour = 100, tm_mday = 99, tm_mon = 40,
         tm_year = - 1, tm_wday = 9, tm_yday = 0, tm_isdst = 0\<rparr> =
     [0x75, 0x7f, 0x20, 0x19, 0x01, 0x00, 0x95]
   \<and> set_time_raw \<lparr>tm_sec = 75, tm_min = - 1, tm_hour = 100, tm_mday = 99, tm_mon = 40,
         tm_year = - 1, tm_wday = 9, tm_yday = 0, tm_isdst = 0\<rparr> ! 5 AND NOT 0x1f = 0
   \<and> log (snd (pcf85063a_set_time \<lparr>regs = zero_regs, log = [], fault = no_fault\<rparr>
         \<lparr>tm_sec = 75, tm_min = - 1, tm_hour = 100, tm_mday = 99, tm_mon = 40,
          tm_year = - 1, tm_wday = 9, tm_yday = 0, tm_isdst = 0\<rparr>)) =
       [Burst_write 0x04 [0x75, 0x7f, 0x20, 0x19, 0x01, 0x00, 0x95]]"
proof -
  have e: "set_time_raw \<lparr>tm_sec = 75, tm_min = - 1, tm_hour = 100, tm_mday = 99, tm_mon = 40,
         tm_year = - 1, tm_wday = 9, tm_yday = 0, tm_isdst = 0\<rparr> =
     [0x75, 0x7f, 0x20, 0x19, 0x01, 0x00, 0x95]"
    by code_simp
  show ?thesis
    using set_time_bytes_within_masks
      [of "\<lparr>regs = zero_regs, log = [], fault = no_fault\<rparr>"
          "\<lparr>tm_sec = 75, tm_min = - 1, tm_hour = 100, tm_mday = 99, tm_mon = 40,
            tm_year = - 1, tm_wday = 9, tm_yday = 0, tm_isdst = 0\<rparr>"]
    by (simp add: e PCF85063A_SECONDS_def)
qed

lemma unpack_full_spec:
  "sint (bcd_unpack PCF85063A_BCD_UPPER_MASK raw) = spec_decode_bcd 8 raw"
  by (rule u8_all [where x = raw]) code_simp

lemma unpack_sec_spec:
  "sint (bcd_unpack PCF85063A_BCD_UPPER_MASK_SEC raw) = spec_decode_bcd 7 raw"
  by (rule u8_all [where x = raw]) code_simp

lemma unpack_year_spec:
  "sint (bcd_unpack PCF85063A_BCD_UPPER_MASK raw + 100) = spec_decode_bcd 8 raw + 100"
  by (rule u8_all [where x = raw]) code_simp

lemma within_mask:
  assumes "(raw::u8) AND NOT (mask k) = 0"
  shows "take_bit k (unat raw) = unat raw"
proof -
  have "raw AND mask k = raw"
  proof (rule bit_eqI)
    fix n
    have "\<not> bit (raw AND NOT (mask k)) n" using assms by simp
    then show "bit (raw AND mask k) n = bit raw n"
      by (auto simp: bit_simps dest: bit_imp_le_length)
  qed
  then have "take_bit k raw = raw" by (simp add: take_bit_eq_mask)
  then have "unat (take_bit k raw) = unat raw" by simp
  then show ?thesis by (simp add: unsigned_take_bit_eq)
qed

lemma masks_numeral:
  "(0x7f :: u8) = mask 7" "(0x3f :: u8) = mask 6" "(0x1f :: u8) = mask 5" "(0x07 :: u8) = mask 3"
  by (simp_all add: mask_eq_exp_minus_1)

lemma take_bit_8_unat: "take_bit 8 (unat (raw::u8)) = unat raw"
proof -
  have "unat (take_bit 8 raw) = unat raw" by (simp add: take_bit_word_eq_self)
  then show ?thesis by (simp only: unsigned_take_bit_eq)
qed

lemma spec_decode_agree:
  "raw AND NOT 0x7f = 0 \<Longrightarrow> spec_decode_bcd 8 raw = spec_decode_bcd 7 raw"
  "raw AND NOT 0x3f = 0 \<Longrightarrow> spec_decode_bcd 8 raw = spec_decode_bcd 6 raw"
  "raw AND NOT 0x1f = 0 \<Longrightarrow> spec_decode_bcd 8 raw = spec_decode_bcd 5 raw"
  "raw AND NOT 0x07 = 0 \<Longrightarrow> spec_decode_bcd 8 raw = spec_decode_weekday raw"
proof -
  show "raw AND NOT 0x7f = 0 \<Longrightarrow> spec_decode_bcd 8 raw = spec_decode_bcd 7 raw"
    unfolding masks_numeral by (simp add: spec_decode_bcd_def within_mask take_bit_8_unat)
  show "raw AND NOT 0x3f = 0 \<Longrightarrow> spec_decode_bcd 8 raw = spec_decode_bcd 6 raw"
    unfolding masks_numeral by (simp add: spec_decode_bcd_def within_mask take_bit_8_unat)
  show "raw AND NOT 0x1f = 0 \<Longrightarrow> spec_decode_bcd 8 raw = spec_decode_bcd 5 raw"
    unfolding masks_numeral by (simp add: spec_decode_bcd_def within_mask take_bit_8_unat)
  show "spec_decode_bcd 8 raw = spec_decode_weekday raw" if h: "raw AND NOT 0x07 = 0"
  proof -
    have t: "take_bit 3 (unat raw) = unat raw"
      using h unfolding masks_numeral by (rule within_mask)
    have "take_bit 3 (unat raw) < 2 ^ 3" by (rule take_bit_nat_less_exp)
    then have "unat raw < 8" using t by simp
    then show ?thesis
      by (simp add: spec_decode_bcd_def spec_decode_weekday_def t take_bit_8_unat)
  qed
qed

lemma image_nth:
  "image b ! 0 = regs b 0x04" "image b ! 1 = regs b 0x05" "image b ! 2 = regs b 0x06"
  "image b ! 3 = regs b 0x07" "image b ! 4 = regs b 0x08" "image b ! 5 = regs b 0x09"
  "image b ! 6 = regs b 0x0a"
  by (simp_all add: image_def)

text \<open>
  Claim C4, as the code has it. When the burst read succeeds and the oscillator-stop
  bit is clear, \<^verbatim>\<open>get_time\<close> decodes the seconds byte under the 7-bit mask, as lower
  nibble plus ten times the upper nibble. The minutes, hours, day, weekday, month and
  year bytes are all decoded with the generic upper mask \<open>0xf0\<close>, that is as the
  lower nibble plus ten times the full upper nibble of the whole byte, the weekday
  included (the year with 100 added). This is the decoding under the field's own mask
  (7 bits for minutes, 6 for hours and days, 5 for months, the raw 3-bit count for the
  weekday) whenever the byte has no bit set outside that mask.
\<close>

theorem get_time_decodes_with_generic_mask:
  assumes ok: "fault b (length (log b)) = 0" and os: "\<not> bit (image b ! 0) 7"
  shows "sint (tm_sec (fst (snd (pcf85063a_get_time b time)))) = spec_decode_bcd 7 (image b ! 0)
    \<and> sint (tm_min (fst (snd (pcf85063a_get_time b time)))) = spec_decode_bcd 8 (image b ! 1)
    \<and> sint (tm_hour (fst (snd (pcf85063a_get_time b time)))) = spec_decode_bcd 8 (image b ! 2)
    \<and> sint (tm_mday (fst (snd (pcf85063a_get_time b time)))) = spec_decode_bcd 8 (image b ! 3)
    \<and> sint (tm_wday (fst (snd (pcf85063a_get_time b time)))) = spec_decode_bcd 8 (image b ! 4)
    \<and> sint (tm_mon (fst (snd (pcf85063a_get_time b time)))) = spec_decode_bcd 8 (image b ! 5)
    \<and> sint (tm_year (fst (snd (pcf85063a_get_time b time)))) =
          spec_decode_bcd 8 (image b ! 6) + 100
    \<and> (image b ! 1 AND NOT 0x7f = 0 \<longrightarrow>
          sint (tm_min (fst (snd (pcf85063a_get_time b time)))) =
            spec_decode_bcd 7 (image b ! 1))
    \<and> (image b ! 2 AND NOT 0x3f = 0 \<longrightarrow>
          sint (tm_hour (fst (snd (pcf85063a_get_time b time)))) =
            spec_decode_bcd 6 (image b ! 2))
    \<and> (image b ! 3 AND NOT 0x3f = 0 \<longrightarrow>
          sint (tm_mday (fst (snd (pcf85063a_get_time b time)))) =
            spec_decode_bcd 6 (image b ! 3))
    \<and> (image b ! 4 AND NOT 0x07 = 0 \<longrightarrow>
          sint (tm_wday (fst (snd (pcf85063a_get_time b time)))) =
            spec_decode_weekday (image b ! 4))
    \<and> (image b ! 5 AND NOT 0x1f = 0 \<longrightarrow>
          sint (tm_mon (fst (snd (pcf85063a_get_time b time)))) =
            spec_decode_bcd 5 (image b ! 5))"
proof -
  have os': "\<not> bit (regs b 0x04) 7"
    using os unfolding image_nth .
  note f = get_time_fields [OF ok os', of time]
  show ?thesis
    unfolding image_nth f unpack_full_spec unpack_sec_spec unpack_year_spec
    using spec_decode_agree [of "regs b 0x05"] spec_decode_agree [of "regs b 0x06"]
      spec_decode_agree [of "regs b 0x07"] spec_decode_agree [of "regs b 0x08"]
      spec_decode_agree [of "regs b 0x09"]
    by simp
qed

theorem get_time_decodes_with_generic_mask_witness:
  "fault \<lparr>regs = zero_regs(0x04 := 0x59, 0x05 := 0x58, 0x06 := 0x23, 0x07 := 0x31,
           0x08 := 0x06, 0x09 := 0x11, 0x0a := 0x99), log = [], fault = no_fault\<rparr> 0 = 0
   \<and> \<not> bit (image \<lparr>regs = zero_regs(0x04 := 0x59, 0x05 := 0x58, 0x06 := 0x23, 0x07 := 0x31,
           0x08 := 0x06, 0x09 := 0x11, 0x0a := 0x99), log = [], fault = no_fault\<rparr> ! 0) 7
   \<and> image \<lparr>regs = zero_regs(0x04 := 0x59, 0x05 := 0x58, 0x06 := 0x23, 0x07 := 0x31,
           0x08 := 0x06, 0x09 := 0x11, 0x0a := 0x99), log = [], fault = no_fault\<rparr> ! 1
         AND NOT 0x7f = 0
   \<and> sint (tm_sec (fst (snd (pcf85063a_get_time
         \<lparr>regs = zero_regs(0x04 := 0x59, 0x05 := 0x58, 0x06 := 0x23, 0x07 := 0x31,
           0x08 := 0x06, 0x09 := 0x11, 0x0a := 0x99), log = [], fault = no_fault\<rparr>
         zero_tm)))) = 59
   \<and> sint (tm_min (fst (snd (pcf85063a_get_time
         \<lparr>regs = zero_regs(0x04 := 0x59, 0x05 := 0x58, 0x06 := 0x23, 0x07 := 0x31,
           0x08 := 0x06, 0x09 := 0x11, 0x0a := 0x99), log = [], fault = no_fault\<rparr>
         zero_tm)))) = 58
   \<and> sint (tm_wday (fst (snd (pcf85063a_get_time
         \<lparr>regs = zero_regs(0x04 := 0x59, 0x05 := 0x58, 0x06 := 0x23, 0x07 := 0x31,
           0x08 := 0x06, 0x09 := 0x11, 0x0a := 0x99), log = [], fault = no_fault\<rparr>
         zero_tm)))) = 6"
proof -
  let ?B = "\<lparr>regs = zero_regs(0x04 := 0x59, 0x05 := 0x58, 0x06 := 0x23, 0x07 := 0x31,
           0x08 := 0x06, 0x09 := 0x11, 0x0a := 0x99), log = [], fault = no_fault\<rparr>"
  have f: "fault ?B (length (log ?B)) = 0"
    by (simp add: no_fault_def)
  have o: "\<not> bit (image ?B ! 0) 7"
    by (simp add: image_def)
  have v: "spec_decode_bcd 7 0x59 = 59" "spec_decode_bcd 8 0x58 = 58" "spec_decode_bcd 8 0x06 = 6"
    by code_simp+
  have m: "(0x58 :: u8) AND NOT 0x7f = 0"
    by code_simp
  show ?thesis
    using get_time_decodes_with_generic_mask [OF f o, of zero_tm] f o v m
    by (simp add: image_def)
qed

text \<open>
  On an image with bits set outside the field masks the two decodings differ: the
  minutes byte \<open>0x80\<close> is read as 80 and not as 0, the hours byte \<open>0x40\<close> as 40
  and not as 0, the day byte \<open>0x41\<close> as 41 and not as 1, and the weekday byte
  \<open>0x08\<close> as 8 and not as 0.
\<close>

theorem get_time_field_masks_counterexample:
  "image
          \<lparr>regs = zero_regs(0x05 := 0x80, 0x06 := 0x40, 0x07 := 0x41, 0x08 := 0x08),
           log = [], fault = no_fault\<rparr> =
       [0x00, 0x80, 0x40, 0x41, 0x08, 0x00, 0x00]
   \<and> fst (pcf85063a_get_time
          \<lparr>regs = zero_regs(0x05 := 0x80, 0x06 := 0x40, 0x07 := 0x41, 0x08 := 0x08),
           log = [], fault = no_fault\<rparr> zero_tm) = Returned 0
   \<and> sint (tm_min (fst (snd (pcf85063a_get_time
          \<lparr>regs = zero_regs(0x05 := 0x80, 0x06 := 0x40, 0x07 := 0x41, 0x08 := 0x08),
           log = [], fault = no_fault\<rparr> zero_tm)))) = 80
   \<and> spec_decode_bcd 7 (image
          \<lparr>regs = zero_regs(0x05 := 0x80, 0x06 := 0x40, 0x07 := 0x41, 0x08 := 0x08),
           log = [], fault = no_fault\<rparr> ! 1) = 0
   \<and> sint (tm_hour (fst (snd (pcf85063a_get_time
          \<lparr>regs = zero_regs(0x05 := 0x80, 0x06 := 0x40, 0x07 := 0x41, 0x08 := 0x08),
           log = [], fault = no_fault\<rparr> zero_tm)))) = 40
   \<and> spec_decode_bcd 6 (image
          \<lparr>regs = zero_regs(0x05 := 0x80, 0x06 := 0x40, 0x07 := 0x41, 0x08 := 0x08),
           log = [], fault = no_fault\<rparr> ! 2) = 0
   \<and> sint (tm_mday (fst (snd (pcf85063a_get_time
          \<lparr>regs = zero_regs(0x05 := 0x80, 0x06 := 0x40, 0x07 := 0x41, 0x08 := 0x08),
           log = [], fault = no_fault\<rparr> zero_tm)))) = 41
   \<and> spec_decode_bcd 6 (image
          \<lparr>regs = zero_regs(0x05 := 0x80, 0x06 := 0x40, 0x07 := 0x41, 0x08 := 0x08),
           log = [], fault = no_fault\<rparr> ! 3) = 1
   \<and> sint (tm_wday (fst (snd (pcf85063a_get_time
          \<lparr>regs = zero_regs(0x05 := 0x80, 0x06 := 0x40, 0x07 := 0x41, 0x08 := 0x08),
           log = [], fault = no_fault\<rparr> zero_tm)))) = 8
   \<and> spec_decode_weekday (image
          \<lparr>regs = zero_regs(0x05 := 0x80, 0x06 := 0x40, 0x07 := 0x41, 0x08 := 0x08),
           log = [], fault = no_fault\<rparr> ! 4) = 0"
  by code_simp

lemma rt_sec:
  fixes x :: int32
  assumes "0 \<le> sint x" "sint x \<le> 59"
  shows "bcd_unpack PCF85063A_BCD_UPPER_MASK_SEC (bcd_pack PCF85063A_SECONDS_MASK x) = x"
  by (rule int32_range [where x = x and N = 60]) (use assms in simp, use assms in simp, code_simp)

lemma rt_min:
  fixes x :: int32
  assumes "0 \<le> sint x" "sint x \<le> 59"
  shows "bcd_unpack PCF85063A_BCD_UPPER_MASK (bcd_pack PCF85063A_MINUTES_MASK x) = x"
  by (rule int32_range [where x = x and N = 60]) (use assms in simp, use assms in simp, code_simp)

lemma rt_hour:
  fixes x :: int32
  assumes "0 \<le> sint x" "sint x \<le> 23"
  shows "bcd_unpack PCF85063A_BCD_UPPER_MASK (bcd_pack PCF85063A_HOURS_MASK x) = x"
  by (rule int32_range [where x = x and N = 24]) (use assms in simp, use assms in simp, code_simp)

lemma rt_mday:
  fixes x :: int32
  assumes "1 \<le> sint x" "sint x \<le> 31"
  shows "bcd_unpack PCF85063A_BCD_UPPER_MASK (bcd_pack PCF85063A_DAYS_MASK x) = x"
  by (rule int32_range [where x = x and N = 32]) (use assms in simp, use assms in simp, code_simp)

lemma rt_wday:
  fixes x :: int32
  assumes "0 \<le> sint x" "sint x \<le> 6"
  shows "bcd_unpack PCF85063A_BCD_UPPER_MASK (ucast (PCF85063A_WEEKDAYS_MASK AND x)) = x"
  by (rule int32_range [where x = x and N = 7]) (use assms in simp, use assms in simp, code_simp)

lemma rt_mon:
  fixes x :: int32
  assumes "0 \<le> sint x" "sint x \<le> 11"
  shows "bcd_unpack PCF85063A_BCD_UPPER_MASK (bcd_pack PCF85063A_MONTHS_MASK x) = x"
  by (rule int32_range [where x = x and N = 12]) (use assms in simp, use assms in simp, code_simp)

lemma set_time_raw_6:
  "set_time_raw t ! 6 =
     ucast (push_bit PCF85063A_BCD_UPPER_SHIFT
              (c_div (ucast (ucast (c_mod (tm_year t) 100) :: u8)) 10)
            + c_mod (ucast (ucast (c_mod (tm_year t) 100) :: u8)) 10)"
  by (simp add: set_time_raw_def Let_def)

lemma c_mod_100:
  fixes y :: int32
  assumes "100 \<le> sint y" "sint y \<le> 199"
  shows "c_mod y 100 = y - 100"
proof -
  have "sint y smod 100 = sint y mod 100"
    using assms by (simp add: smod_int_alt_def sgn_if)
  also have "\<dots> = sint y - 100"
  proof -
    have a: "(sint y - 100) mod 100 = sint y - 100"
      using assms by (intro mod_pos_pos_trivial) auto
    have b: "(sint y - 100) mod 100 = sint y mod 100"
      by (rule minus_mod_self2)
    show ?thesis using a unfolding b .
  qed
  finally have "c_mod y 100 = word_of_int (sint y - 100)"
    by (simp add: c_mod_def)
  then show ?thesis by simp
qed

lemma sint_minus_100:
  fixes y :: int32
  assumes "100 \<le> sint y"
  shows "sint (y - 100) = sint y - 100"
proof -
  have "sint y < 2 ^ 31" using sint_less [of y] by simp
  then show ?thesis
    using assms by (simp add: sint_word_ariths signed_take_bit_int_eq_self)
qed

lemma year_byte_small:
  fixes z :: int32
  assumes "0 \<le> sint z" "sint z < 100"
  shows "(ucast (ucast z :: u8) :: int32) = z"
  by (rule int32_range [where x = z and N = 100]) (use assms in simp, use assms in simp, code_simp)

lemma rt_year_digits:
  fixes z :: int32
  assumes "0 \<le> sint z" "sint z < 100"
  shows "bcd_unpack PCF85063A_BCD_UPPER_MASK
           (ucast (push_bit PCF85063A_BCD_UPPER_SHIFT (c_div z 10) + c_mod z 10)) = z"
  by (rule int32_range [where x = z and N = 100]) (use assms in simp, use assms in simp, code_simp)

lemma rt_year:
  assumes "100 \<le> sint (tm_year t)" "sint (tm_year t) \<le> 199"
  shows "bcd_unpack PCF85063A_BCD_UPPER_MASK (set_time_raw t ! 6) + 100 = tm_year t"
proof -
  have r: "0 \<le> sint (tm_year t - 100)" "sint (tm_year t - 100) < 100"
    using assms by (simp_all add: sint_minus_100)
  show ?thesis
    unfolding set_time_raw_6 c_mod_100 [OF assms] year_byte_small [OF r] rt_year_digits [OF r]
    by simp
qed

lemma store_bytes_7:
  "store_bytes a [x0, x1, x2, x3, x4, x5, x6] r =
     r(a := x0, a + 1 := x1, a + 2 := x2, a + 3 := x3, a + 4 := x4, a + 5 := x5, a + 6 := x6)"
  by (simp add: add.assoc)

lemma set_time_ok:
  assumes "fault b (length (log b)) = 0"
  shows "pcf85063a_set_time b t =
    (0, b\<lparr>log := log b @ [Burst_write PCF85063A_SECONDS (set_time_raw t)],
           regs := store_bytes PCF85063A_SECONDS (set_time_raw t) (regs b)\<rparr>)"
  using assms by (simp add: pcf85063a_set_time_def Let_def burst_write_ok next_ret_def)

lemma image_store:
  "length xs = 7 \<Longrightarrow> image (b\<lparr>log := l, regs := store_bytes 0x04 xs (regs b)\<rparr>) = xs"
proof -
  assume "length xs = 7"
  then obtain x0 x1 x2 x3 x4 x5 x6 where xs: "xs = [x0, x1, x2, x3, x4, x5, x6]"
    by (auto simp: length_Suc_conv eval_nat_numeral)
  show ?thesis
    unfolding xs store_bytes_7 by (simp add: image_def)
qed

lemma image_after_set_time:
  assumes "fault b (length (log b)) = 0"
  shows "image (snd (pcf85063a_set_time b t)) = set_time_raw t"
  using image_store [of "set_time_raw t" b]
  by (simp add: set_time_ok [OF assms] set_time_raw_nth PCF85063A_SECONDS_def)

lemma decode_fields_roundtrip:
  assumes "valid_calendar_time t"
  shows "(decode_fields (set_time_raw t) out)\<lparr>tm_yday := yd, tm_isdst := 0\<rparr> =
           t\<lparr>tm_yday := yd, tm_isdst := 0\<rparr>"
proof -
  have v: "0 \<le> sint (tm_sec t)" "sint (tm_sec t) \<le> 59"
     "0 \<le> sint (tm_min t)" "sint (tm_min t) \<le> 59"
     "0 \<le> sint (tm_hour t)" "sint (tm_hour t) \<le> 23"
     "1 \<le> sint (tm_mday t)" "sint (tm_mday t) \<le> 31"
     "0 \<le> sint (tm_wday t)" "sint (tm_wday t) \<le> 6"
     "0 \<le> sint (tm_mon t)" "sint (tm_mon t) \<le> 11"
     "100 \<le> sint (tm_year t)" "sint (tm_year t) \<le> 199"
    using assms by (simp_all add: valid_calendar_time_def)
  have f: "bcd_unpack PCF85063A_BCD_UPPER_MASK_SEC (set_time_raw t ! 0) = tm_sec t"
     "bcd_unpack PCF85063A_BCD_UPPER_MASK (set_time_raw t ! 1) = tm_min t"
     "bcd_unpack PCF85063A_BCD_UPPER_MASK (set_time_raw t ! 2) = tm_hour t"
     "bcd_unpack PCF85063A_BCD_UPPER_MASK (set_time_raw t ! 3) = tm_mday t"
     "bcd_unpack PCF85063A_BCD_UPPER_MASK (set_time_raw t ! 4) = tm_wday t"
     "bcd_unpack PCF85063A_BCD_UPPER_MASK (set_time_raw t ! 5) = tm_mon t"
     "bcd_unpack PCF85063A_BCD_UPPER_MASK (set_time_raw t ! 6) + 100 = tm_year t"
    unfolding set_time_raw_nth
    using v rt_sec rt_min rt_hour rt_mday rt_wday rt_mon rt_year [of t] by simp_all
  show ?thesis
    unfolding decode_fields_def f by (cases t) simp
qed

lemma seconds_byte_os_clear: "\<not> bit (set_time_raw t ! 0) 7"
proof -
  have "set_time_raw t ! 0 AND NOT 0x7f = 0"
    unfolding set_time_raw_nth using bcd_pack_masked [of PCF85063A_SECONDS_MASK "tm_sec t"]
    by (simp add: PCF85063A_SECONDS_MASK_def)
  then have "\<not> bit (set_time_raw t ! 0 AND NOT 0x7f) 7" by simp
  then show ?thesis by (simp add: bit_simps)
qed

text \<open>
  Claim C1. For a calendar time whose fields are in range (seconds and minutes 0-59,
  hours 0-23, day of month 1-31, weekday 0-6, month 0-11, year 100-199),
  \<^verbatim>\<open>set_time\<close> followed by \<^verbatim>\<open>get_time\<close> on a bus that stores the written bytes returns
  0 and gives back the seconds, minutes, hours, day, weekday, month and year of the
  input; \<^verbatim>\<open>tm_yday\<close> is the day of the year derived from the month, the day and the
  year, and \<^verbatim>\<open>tm_isdst\<close> is written as 0. So for a calendar time of the data model,
  whose DST flag is always false, the result is the input with only \<^verbatim>\<open>tm_yday\<close>
  replaced.
\<close>

theorem set_time_get_time_roundtrip:
  assumes valid: "valid_calendar_time t"
      and f0: "fault b (length (log b)) = 0"
      and f1: "fault b (length (log b) + 1) = 0"
  shows "fst (pcf85063a_set_time b t) = 0
    \<and> image (snd (pcf85063a_set_time b t)) = set_time_raw t
    \<and> get_yday (tm_mon t) (tm_mday t) (tm_year t + 1900) =
         Some (word_of_int (spec_day_of_year (spec_is_leap (sint (tm_year t + 1900)))
                 (nat (sint (tm_mon t))) (sint (tm_mday t))))
    \<and> fst (pcf85063a_get_time (snd (pcf85063a_set_time b t)) out) = Returned 0
    \<and> fst (snd (pcf85063a_get_time (snd (pcf85063a_set_time b t)) out)) =
         t\<lparr>tm_yday := word_of_int (spec_day_of_year (spec_is_leap (sint (tm_year t + 1900)))
                          (nat (sint (tm_mon t))) (sint (tm_mday t))),
            tm_isdst := 0\<rparr>
    \<and> (tm_isdst t = 0 \<longrightarrow>
         fst (snd (pcf85063a_get_time (snd (pcf85063a_set_time b t)) out)) =
           t\<lparr>tm_yday := word_of_int (spec_day_of_year (spec_is_leap (sint (tm_year t + 1900)))
                            (nat (sint (tm_mon t))) (sint (tm_mday t)))\<rparr>)"
proof -
  let ?b1 = "snd (pcf85063a_set_time b t)"
  let ?yd = "word_of_int (spec_day_of_year (spec_is_leap (sint (tm_year t + 1900)))
                 (nat (sint (tm_mon t))) (sint (tm_mday t))) :: int32"
  have s: "fst (pcf85063a_set_time b t) = 0"
    by (simp add: set_time_ok [OF f0])
  have img: "image ?b1 = set_time_raw t"
    by (rule image_after_set_time [OF f0])
  have g1: "fault ?b1 (length (log ?b1)) = 0"
    using f1 by (simp add: set_time_ok [OF f0])
  have mon: "0 \<le> sint (tm_mon t)" "sint (tm_mon t) < 12"
    using valid by (simp_all add: valid_calendar_time_def)
  have yd: "get_yday (tm_mon t) (tm_mday t) (tm_year t + 1900) = Some ?yd"
    by (rule get_yday_spec [OF mon])
  have "regs ?b1 0x04 = set_time_raw t ! 0"
    using image_nth(1) [of ?b1] unfolding img by simp
  then have os: "\<not> bit (regs ?b1 0x04) 7"
    using seconds_byte_os_clear [of t] by simp
  have d: "(decode_fields (set_time_raw t) out)\<lparr>tm_yday := ?yd, tm_isdst := 0\<rparr> =
           t\<lparr>tm_yday := ?yd, tm_isdst := 0\<rparr>"
    by (rule decode_fields_roundtrip [OF valid])
  have dm: "tm_mon (decode_fields (set_time_raw t) out) = tm_mon t"
    "tm_mday (decode_fields (set_time_raw t) out) = tm_mday t"
    "tm_year (decode_fields (set_time_raw t) out) = tm_year t"
    using arg_cong [OF d, of tm_mon] arg_cong [OF d, of tm_mday] arg_cong [OF d, of tm_year]
    by simp_all
  have e: "t\<lparr>tm_yday := ?yd, tm_isdst := 0\<rparr> = t\<lparr>tm_yday := ?yd\<rparr>" if "tm_isdst t = 0"
    using that by (cases t) simp
  have g: "pcf85063a_get_time ?b1 out =
     (Returned 0, t\<lparr>tm_yday := ?yd, tm_isdst := 0\<rparr>,
      ?b1\<lparr>log := log ?b1 @ [Burst_read 0x04 7]\<rparr>)"
    unfolding get_time_unfold [OF g1] img using os by (simp add: dm yd d)
  show ?thesis
    using s img yd e by (simp add: g)
qed

theorem set_time_get_time_roundtrip_witness:
  "valid_calendar_time \<lparr>tm_sec = 59, tm_min = 58, tm_hour = 23, tm_mday = 31, tm_mon = 11,
         tm_year = 199, tm_wday = 6, tm_yday = 0, tm_isdst = 0\<rparr>
   \<and> fault \<lparr>regs = zero_regs, log = [], fault = no_fault\<rparr> 0 = 0
   \<and> fault \<lparr>regs = zero_regs, log = [], fault = no_fault\<rparr> 1 = 0
   \<and> fst (pcf85063a_get_time (snd (pcf85063a_set_time
          \<lparr>regs = zero_regs, log = [], fault = no_fault\<rparr>
          \<lparr>tm_sec = 59, tm_min = 58, tm_hour = 23, tm_mday = 31, tm_mon = 11,
           tm_year = 199, tm_wday = 6, tm_yday = 0, tm_isdst = 0\<rparr>)) zero_tm) = Returned 0
   \<and> fst (snd (pcf85063a_get_time (snd (pcf85063a_set_time
          \<lparr>regs = zero_regs, log = [], fault = no_fault\<rparr>
          \<lparr>tm_sec = 59, tm_min = 58, tm_hour = 23, tm_mday = 31, tm_mon = 11,
           tm_year = 199, tm_wday = 6, tm_yday = 0, tm_isdst = 0\<rparr>)) zero_tm)) =
       \<lparr>tm_sec = 59, tm_min = 58, tm_hour = 23, tm_mday = 31, tm_mon = 11,
        tm_year = 199, tm_wday = 6, tm_yday = 364, tm_isdst = 0\<rparr>"
proof -
  have v: "valid_calendar_time \<lparr>tm_sec = 59, tm_min = 58, tm_hour = 23, tm_mday = 31,
         tm_mon = 11, tm_year = 199, tm_wday = 6, tm_yday = 0, tm_isdst = 0\<rparr>"
    by (simp add: valid_calendar_time_def)
  have f: "fault \<lparr>regs = zero_regs, log = [], fault = no_fault\<rparr>
             (length (log \<lparr>regs = zero_regs, log = [], fault = no_fault\<rparr>)) = 0"
    "fault \<lparr>regs = zero_regs, log = [], fault = no_fault\<rparr>
             (length (log \<lparr>regs = zero_regs, log = [], fault = no_fault\<rparr>) + 1) = 0"
    by (simp_all add: no_fault_def)
  have y: "spec_day_of_year (spec_is_leap (sint (199 + 1900 :: int32))) (nat (sint (11 :: int32)))
             (sint (31 :: int32)) = 364"
    by (simp add: spec_day_of_year_def spec_is_leap_def month_lengths_def)
  show ?thesis
    using set_time_get_time_roundtrip [OF v f, of zero_tm] v y
    by (simp add: no_fault_def)
qed

end
